theory Spec2Isabelle
  imports Main "HOL-Library.Char_ord" "HOL-Library.List_Lexorder"
begin

section \<open>Tables\<close>

text \<open>
  \<^verbatim>\<open>dashboard.py\<close> keeps its leads and projects in pandas tables. A cell of a table is
  a missing number (\<^verbatim>\<open>NaN\<close>), a missing date (\<^verbatim>\<open>NaT\<close>), Python's \<^verbatim>\<open>None\<close> (kept in a
  column of objects), a text, a whole number or a point in time. Times are counted in
  microseconds, the resolution of \<^verbatim>\<open>datetime\<close>; calendar dates, as the date picker
  returns them, are counted in days. Fractional numbers are not part of the model: deal
  values are whole numbers, as \<^verbatim>\<open>np.random.randint\<close> draws them.
\<close>

datatype cell = NaN | NaT | PyNone | Str string | Number int | Timestamp int

text \<open>
  A row gives a cell for every column name, \<open>NaN\<close> for the columns its table does not
  have; a table is the list of its column names, the list of its rows, in order, and the
  set of the columns that pandas stores as 64-bit integers (dtype \<^verbatim>\<open>int64\<close>). The cells of
  such a column are whole numbers from \<open>- 2 ^ 63\<close> up to \<open>2 ^ 63 - 1\<close>. The other dtypes are
  not told apart: but for the sum of a column, what the script does with a column is
  determined by its cells. The row labels of pandas are not modelled: the script never
  reads them.
\<close>

type_synonym row = "string \<Rightarrow> cell"

record frame =
  columns :: "string list"
  rows :: "row list"
  int64_columns :: "string set"

definition is_int64 :: "cell \<Rightarrow> bool" where
  "is_int64 c = (case c of Number v \<Rightarrow> - (2 ^ 63) \<le> v \<and> v < 2 ^ 63 | _ \<Rightarrow> False)"

datatype error = KeyError | IndexError | TypeError | StreamlitAPIException

definition bind_err :: "error + 'a \<Rightarrow> ('a \<Rightarrow> error + 'b) \<Rightarrow> error + 'b" where
  "bind_err m f = (case m of Inl e \<Rightarrow> Inl e | Inr x \<Rightarrow> f x)"

fun mapM_err :: "('a \<Rightarrow> error + 'b) \<Rightarrow> 'a list \<Rightarrow> error + 'b list" where
  "mapM_err f [] = Inr []"
| "mapM_err f (x # xs) =
     bind_err (f x) (\<lambda>y. bind_err (mapM_err f xs) (\<lambda>ys. Inr (y # ys)))"

text \<open>\<^verbatim>\<open>pd.DataFrame()\<close>: no columns, no rows.\<close>

definition DataFrame :: frame where
  "DataFrame = \<lparr>columns = [], rows = [], int64_columns = {}\<rparr>"

text \<open>\<^verbatim>\<open>df.empty\<close>: one of the two axes has length zero.\<close>

definition frame_empty :: "frame \<Rightarrow> bool" where
  "frame_empty df \<longleftrightarrow> columns df = [] \<or> rows df = []"

text \<open>\<^verbatim>\<open>df[c]\<close> raises \<^verbatim>\<open>KeyError\<close> for a column the table does not have.\<close>

definition col :: "frame \<Rightarrow> string \<Rightarrow> error + cell list" where
  "col df c = (if c \<in> set (columns df) then Inr (map (\<lambda>r. r c) (rows df)) else Inl KeyError)"

text \<open>\<^verbatim>\<open>df[mask]\<close>: a new table with the rows whose mask entry is true.\<close>

definition select :: "frame \<Rightarrow> bool list \<Rightarrow> frame" where
  "select df keep = df\<lparr>rows := map fst (filter snd (zip (rows df) keep))\<rparr>"

definition mask_and :: "bool list \<Rightarrow> bool list \<Rightarrow> bool list" where
  "mask_and a b = map (\<lambda>(x, y). x \<and> y) (zip a b)"

text \<open>\<^verbatim>\<open>series.isin(values)\<close>; pandas lets a missing value match a missing value.\<close>

definition isin :: "cell list \<Rightarrow> cell list \<Rightarrow> bool list" where
  "isin series vals = map (\<lambda>c. c \<in> set vals) series"

text \<open>\<^verbatim>\<open>series == text\<close>: never an error, false for every cell that is not that text.\<close>

definition eq_str :: "cell list \<Rightarrow> string \<Rightarrow> bool list" where
  "eq_str series s = map (\<lambda>c. c = Str s) series"

text \<open>
  \<^verbatim>\<open>series >= t\<close> and \<^verbatim>\<open>series <= t\<close> for a time \<open>t\<close>: a missing date compares false,
  and pandas raises \<^verbatim>\<open>TypeError\<close> for a column of numbers or texts.
\<close>

definition ge_ts :: "cell list \<Rightarrow> int \<Rightarrow> error + bool list" where
  "ge_ts series t =
     mapM_err (\<lambda>c. case c of Timestamp x \<Rightarrow> Inr (t \<le> x) | NaT \<Rightarrow> Inr False | _ \<Rightarrow> Inl TypeError)
       series"

definition le_ts :: "cell list \<Rightarrow> int \<Rightarrow> error + bool list" where
  "le_ts series t =
     mapM_err (\<lambda>c. case c of Timestamp x \<Rightarrow> Inr (x \<le> t) | NaT \<Rightarrow> Inr False | _ \<Rightarrow> Inl TypeError)
       series"

text \<open>\<^verbatim>\<open>timedelta(days=n)\<close> in microseconds, and \<^verbatim>\<open>pd.to_datetime\<close> of a calendar date:
  midnight at the start of that day.\<close>

definition timedelta_days :: "int \<Rightarrow> int" where
  "timedelta_days n = n * 86400000000"

definition to_datetime :: "int \<Rightarrow> int" where
  "to_datetime d = timedelta_days d"

text \<open>\<^verbatim>\<open>xs[i]\<close> for an index that is not negative.\<close>

definition getitem :: "'a list \<Rightarrow> nat \<Rightarrow> error + 'a" where
  "getitem xs i = (if i < length xs then Inr (xs ! i) else Inl IndexError)"

section \<open>The filter (lines 75 to 79)\<close>

text \<open>
  \<^verbatim>\<open>
  filtered_sales = sales_data[
      (sales_data['Salesperson'].isin(selected_salesperson)) &
      (sales_data['Date Created'] >= pd.to_datetime(date_range[0])) &
      (sales_data['Date Created'] <= pd.to_datetime(date_range[1]))
  ] if not sales_data.empty else pd.DataFrame()
  \<close>
  \<open>date_range\<close> is what the date picker returned: a list of calendar dates.
\<close>

definition filtered_sales :: "frame \<Rightarrow> cell list \<Rightarrow> int list \<Rightarrow> error + frame" where
  "filtered_sales sales_data selected_salesperson date_range =
     (if \<not> frame_empty sales_data then
        bind_err (col sales_data ''Salesperson'') (\<lambda>owner.
        bind_err (col sales_data ''Date Created'') (\<lambda>created.
        bind_err (getitem date_range 0) (\<lambda>d0.
        bind_err (ge_ts created (to_datetime d0)) (\<lambda>m1.
        bind_err (col sales_data ''Date Created'') (\<lambda>created'.
        bind_err (getitem date_range 1) (\<lambda>d1.
        bind_err (le_ts created' (to_datetime d1)) (\<lambda>m2.
          Inr (select sales_data
                 (mask_and (mask_and (isin owner selected_salesperson) m1) m2)))))))))
      else Inr DataFrame)"

section \<open>Totals and goal progress (lines 83 to 90)\<close>

subsection \<open>Binary floating point\<close>

text \<open>
  The goal progress is computed in IEEE binary64. A value of that format is given by a
  pair \<open>(m, e)\<close> and is \<open>m * 2 ^ e\<close>; \<open>num\<close> over \<open>den\<close> is the same value as a fraction.
  \<open>binary64 a b\<close> is the value nearest to \<open>a / b\<close> for \<open>b > 0\<close>, a tie going to the even
  mantissa: 53 bits of mantissa, no bound on the exponent (the totals and goals of the
  script are far from the range where the format overflows or loses bits).
\<close>

definition round_half_even :: "int \<Rightarrow> int \<Rightarrow> int" where
  "round_half_even a b =
     (let q = a div b; r = a mod b
      in if 2 * r < b then q else if b < 2 * r then q + 1 else if even q then q else q + 1)"

function bitlen :: "int \<Rightarrow> int" where
  "bitlen n = (if n \<le> 0 then 0 else 1 + bitlen (n div 2))"
  by pat_completeness auto
termination
  by (relation "measure nat") auto

declare bitlen.simps [simp del]

type_synonym double = "int \<times> int"

definition num :: "double \<Rightarrow> int" where
  "num x = (case x of (m, e) \<Rightarrow> if 0 \<le> e then m * 2 ^ nat e else m)"

definition den :: "double \<Rightarrow> int" where
  "den x = (case x of (m, e) \<Rightarrow> if 0 \<le> e then 1 else 2 ^ nat (- e))"

definition nearest :: "int \<Rightarrow> int \<Rightarrow> double" where
  "nearest a b =
     (let d = bitlen a - bitlen b;
          k = (if (if 0 \<le> d then b * 2 ^ nat d \<le> a else b \<le> a * 2 ^ nat (- d))
               then d else d - 1);
          e = k - 52
      in (if 0 \<le> e then round_half_even a (b * 2 ^ nat e)
          else round_half_even (a * 2 ^ nat (- e)) b, e))"

definition binary64 :: "int \<Rightarrow> int \<Rightarrow> double" where
  "binary64 a b =
     (if a = 0 then (0, 0)
      else if a < 0 then (case nearest (- a) b of (m, e) \<Rightarrow> (- m, e))
      else nearest a b)"

text \<open>
  The quotient of two values and the product of a value with 100, each rounded to the
  nearest value; then the two ways of rounding to two decimals, both returning the
  number of hundredths \<open>n\<close> (the value returned is the one nearest to \<open>n / 100\<close>). Python's
  \<^verbatim>\<open>round(x, 2)\<close> rounds the exact value of \<open>x\<close>, a tie going to the even digit; numpy's,
  used for a \<^verbatim>\<open>numpy.float64\<close>, multiplies by 100, rounds the product to the nearest
  value, and rounds that to the nearest integer.
\<close>

definition div_double :: "double \<Rightarrow> double \<Rightarrow> double" where
  "div_double x y = binary64 (num x * den y) (den x * num y)"

definition mul100 :: "double \<Rightarrow> double" where
  "mul100 x = binary64 (num x * 100) (den x)"

definition py_round2 :: "double \<Rightarrow> int" where
  "py_round2 x = round_half_even (num x * 100) (den x)"

definition np_round2 :: "double \<Rightarrow> int" where
  "np_round2 x = (let p = mul100 x in round_half_even (num p) (den p))"

subsection \<open>Totals\<close>

text \<open>
  \<^verbatim>\<open>series.sum()\<close> returns a \<^verbatim>\<open>numpy.int64\<close> for a column of 64-bit integers: numpy adds
  the cells in 64 bits and wraps around without raising, so that the result is the sum of
  the cells brought into the range from \<open>- 2 ^ 63\<close> to \<open>2 ^ 63 - 1\<close>. This is also what the
  group-wise sum of line 102 does. For a column of another dtype pandas adds in binary
  floating point, in an order that numpy does not fix, or cell by cell with the addition
  of Python, and returns a \<^verbatim>\<open>numpy.float64\<close> or a number of Python, or raises (for dates).
  These sums are taken from outside: \<open>series_other cells\<close> is what \<^verbatim>\<open>.sum()\<close> returns for
  the cells of a column that is not one of 64-bit integers, and \<open>groupby_other cells\<close>
  what the group-wise sum returns for the cells of one group of such a column.
\<close>

datatype total = Numpy_int int | Numpy_float double | Python_int int | Python_float double

record other_sums =
  series_other :: "cell list \<Rightarrow> error + total"
  groupby_other :: "cell list \<Rightarrow> error + total"

definition wrap64 :: "int \<Rightarrow> int" where
  "wrap64 v = (v + 2 ^ 63) mod 2 ^ 64 - 2 ^ 63"

definition whole :: "cell \<Rightarrow> int" where
  "whole c = (case c of Number v \<Rightarrow> v | _ \<Rightarrow> 0)"

definition sum_cells ::
  "(cell list \<Rightarrow> error + total) \<Rightarrow> bool \<Rightarrow> cell list \<Rightarrow> error + total" where
  "sum_cells other int64 cells =
     (if int64 \<and> list_all is_int64 cells
      then Inr (Numpy_int (wrap64 (sum_list (map whole cells))))
      else other cells)"

text \<open>
  \<^verbatim>\<open>
  sales_total = filtered_sales[filtered_sales['Status'] == 'Closed-Won']['Deal Value ($)'].sum() \
      if not filtered_sales.empty and 'Status' in filtered_sales.columns else 0
  ops_total = len(ops_data) if not ops_data.empty else 0
  \<close>
  The selection of the won leads keeps the dtype of every column; the 0 of the other
  branch is an integer of Python.
\<close>

definition sales_total :: "other_sums \<Rightarrow> frame \<Rightarrow> error + total" where
  "sales_total sums filtered =
     (if \<not> frame_empty filtered \<and> ''Status'' \<in> set (columns filtered) then
        bind_err (col filtered ''Status'') (\<lambda>status.
        let won = select filtered (eq_str status ''Closed-Won'') in
        bind_err (col won ''Deal Value ($)'')
          (sum_cells (series_other sums) (''Deal Value ($)'' \<in> int64_columns won)))
      else Inr (Python_int 0))"

definition ops_total :: "frame \<Rightarrow> nat" where
  "ops_total ops_data = (if \<not> frame_empty ops_data then length (rows ops_data) else 0)"

subsection \<open>Goal progress\<close>

text \<open>
  \<^verbatim>\<open>
  sales_progress = round((sales_total / sales_goal) * 100, 2) if sales_goal > 0 else 0
  ops_progress = round((ops_total / ops_goal) * 100, 2) if ops_goal > 0 else 0
  \<close>
  For a \<^verbatim>\<open>sales_total\<close> of numpy, numpy turns it and the goal into binary64 values and
  divides those, and the result is rounded by numpy. For integers of Python, as
  \<^verbatim>\<open>ops_total\<close> and the goals are, the quotient of the two is rounded once to the nearest
  binary64 value, and the result is rounded by Python. The progress is given in
  hundredths.
\<close>

datatype progress = Rounded int | Zero

definition sales_progress :: "total \<Rightarrow> int \<Rightarrow> progress" where
  "sales_progress amount sales_goal =
     (if sales_goal > 0 then
        Rounded
          (case amount of
             Numpy_int v \<Rightarrow>
               np_round2 (mul100 (div_double (binary64 v 1) (binary64 sales_goal 1)))
           | Numpy_float x \<Rightarrow> np_round2 (mul100 (div_double x (binary64 sales_goal 1)))
           | Python_int v \<Rightarrow> py_round2 (mul100 (binary64 v sales_goal))
           | Python_float x \<Rightarrow> py_round2 (mul100 (div_double x (binary64 sales_goal 1))))
      else Zero)"

definition ops_progress :: "nat \<Rightarrow> int \<Rightarrow> progress" where
  "ops_progress amount ops_goal =
     (if ops_goal > 0 then Rounded (py_round2 (mul100 (binary64 (int amount) ops_goal)))
      else Zero)"

section \<open>The metrics of the three pages (lines 92 to 154)\<close>

text \<open>A metric shows a count, or the placeholder \<^verbatim>\<open>"N/A"\<close> when a column is missing.\<close>

datatype metric = Count nat | NA

definition count_true :: "bool list \<Rightarrow> nat" where
  "count_true bs = length (filter (\<lambda>b. b) bs)"

text \<open>
  \<^verbatim>\<open>a > b\<close> on two columns, cell by cell: dates with dates, numbers with numbers, texts
  with texts; a missing value on either side compares false; pandas raises
  \<^verbatim>\<open>TypeError\<close> for any other pair.
\<close>

fun gt_cell :: "cell \<times> cell \<Rightarrow> error + bool" where
  "gt_cell (Timestamp x, Timestamp y) = Inr (y < x)"
| "gt_cell (Timestamp x, NaT) = Inr False"
| "gt_cell (NaT, Timestamp y) = Inr False"
| "gt_cell (NaT, NaT) = Inr False"
| "gt_cell (Number x, Number y) = Inr (y < x)"
| "gt_cell (Number x, NaN) = Inr False"
| "gt_cell (NaN, Number y) = Inr False"
| "gt_cell (NaN, NaN) = Inr False"
| "gt_cell (Str x, Str y) = Inr (y < x)"
| "gt_cell _ = Inl TypeError"

definition gt_series :: "cell list \<Rightarrow> cell list \<Rightarrow> error + bool list" where
  "gt_series a b = mapM_err gt_cell (zip a b)"

text \<open>
  \<^verbatim>\<open>
  col2.metric("Closed-Won", (filtered_sales['Status'] == 'Closed-Won').sum()
              if 'Status' in filtered_sales.columns else "N/A")
  col2.metric("Completed Projects", (ops_data['Project Status'] == 'Completed').sum()
              if 'Project Status' in ops_data.columns else "N/A")
  col3.metric("SLA Breaches",
              (ops_data['Actual Completion'] > ops_data['Expected Completion']).sum()
              if 'Actual Completion' in ops_data.columns
                 and 'Expected Completion' in ops_data.columns else "N/A")
  \<close>
\<close>

definition closed_won :: "frame \<Rightarrow> error + metric" where
  "closed_won filtered =
     (if ''Status'' \<in> set (columns filtered) then
        bind_err (col filtered ''Status'') (\<lambda>status.
          Inr (Count (count_true (eq_str status ''Closed-Won''))))
      else Inr NA)"

definition completed_projects :: "frame \<Rightarrow> error + metric" where
  "completed_projects ops_data =
     (if ''Project Status'' \<in> set (columns ops_data) then
        bind_err (col ops_data ''Project Status'') (\<lambda>status.
          Inr (Count (count_true (eq_str status ''Completed''))))
      else Inr NA)"

definition sla_breaches :: "frame \<Rightarrow> error + metric" where
  "sla_breaches ops_data =
     (if ''Actual Completion'' \<in> set (columns ops_data)
         \<and> ''Expected Completion'' \<in> set (columns ops_data) then
        bind_err (col ops_data ''Actual Completion'') (\<lambda>actual.
        bind_err (col ops_data ''Expected Completion'') (\<lambda>expected.
        bind_err (gt_series actual expected) (\<lambda>late.
          Inr (Count (count_true late)))))
      else Inr NA)"

text \<open>
  \<^verbatim>\<open>st.progress(min(sales_progress / 100, 1.0), ...)\<close> (lines 98 and 124): Streamlit
  raises \<^verbatim>\<open>StreamlitAPIException\<close> for a value below 0.
\<close>

definition st_progress :: "progress \<Rightarrow> error + unit" where
  "st_progress p =
     (case p of
        Zero \<Rightarrow> Inr ()
      | Rounded n \<Rightarrow> if n < 0 then Inl StreamlitAPIException else Inr ())"

text \<open>
  The data of the chart on the sales page (lines 101 and 102):
  \<^verbatim>\<open>
  if not filtered_sales.empty and 'Lead Source' in filtered_sales.columns:
      chart_data = filtered_sales.groupby('Lead Source')['Deal Value ($)'].sum().reset_index()
  \<close>
  The rows without a lead source are left out, and each lead source that occurs gets the
  sum of its deal values, added as the dtype of that column has it. The result is given
  as a mapping; the order in which pandas lists the groups is not part of it.
\<close>

definition is_null :: "cell \<Rightarrow> bool" where
  "is_null c = (case c of NaN \<Rightarrow> True | NaT \<Rightarrow> True | PyNone \<Rightarrow> True | _ \<Rightarrow> False)"

definition group_sum ::
  "other_sums \<Rightarrow> frame \<Rightarrow> string \<Rightarrow> string \<Rightarrow> error + (cell \<rightharpoonup> total)" where
  "group_sum sums df key val =
     bind_err (col df key) (\<lambda>ks.
     bind_err (col df val) (\<lambda>vs.
     let pairs = filter (\<lambda>p. \<not> is_null (fst p)) (zip ks vs) in
     bind_err (mapM_err (\<lambda>k. bind_err (sum_cells (groupby_other sums) (val \<in> int64_columns df)
                                           (map snd (filter (\<lambda>p. fst p = k) pairs)))
                                 (\<lambda>t. Inr (k, t)))
                 (remdups (map fst pairs)))
       (\<lambda>groups. Inr (map_of groups))))"

definition chart_data :: "other_sums \<Rightarrow> frame \<Rightarrow> error + (cell \<rightharpoonup> total) option" where
  "chart_data sums filtered =
     (if \<not> frame_empty filtered \<and> ''Lead Source'' \<in> set (columns filtered) then
        bind_err (group_sum sums filtered ''Lead Source'' ''Deal Value ($)'')
          (\<lambda>groups. Inr (Some groups))
      else Inr None)"

text \<open>
  What a page shows: the metrics, then the progress bar, then the data of the chart. The
  plotting calls themselves and the tables are left out, as is the chart of the
  operations page, which counts the rows of each project status and raises nothing. The
  calendar page draws a timeline of (task, start, finish) when the project table has the
  columns for it, and a warning otherwise.
\<close>

datatype view_section = Sales_Pipeline | Operations_Workflow | Operations_Calendar

datatype page =
    Sales_Page nat metric total "(cell \<rightharpoonup> total) option"
  | Operations_Page nat metric metric
  | Calendar_Page "(cell \<times> cell \<times> cell) list option"

definition timeline :: "frame \<Rightarrow> error + page" where
  "timeline ops_data =
     (if \<not> frame_empty ops_data
         \<and> {''Kickoff Date'', ''Expected Completion''} \<subseteq> set (columns ops_data) then
        bind_err (col ops_data ''Lead ID'') (\<lambda>task.
        bind_err (col ops_data ''Kickoff Date'') (\<lambda>start.
        bind_err (col ops_data ''Expected Completion'') (\<lambda>finish.
          Inr (Calendar_Page (Some (zip task (zip start finish)))))))
      else Inr (Calendar_Page None))"

definition render ::
  "other_sums \<Rightarrow> view_section \<Rightarrow> frame \<Rightarrow> total \<Rightarrow> progress \<Rightarrow> frame \<Rightarrow> progress
     \<Rightarrow> error + page" where
  "render sums sect filtered amount sales_bar ops_data ops_bar =
     (case sect of
        Sales_Pipeline \<Rightarrow>
          bind_err (closed_won filtered) (\<lambda>won.
          bind_err (st_progress sales_bar) (\<lambda>bar.
          bind_err (chart_data sums filtered) (\<lambda>chart.
            Inr (Sales_Page (length (rows filtered)) won amount chart))))
      | Operations_Workflow \<Rightarrow>
          bind_err (completed_projects ops_data) (\<lambda>completed.
          bind_err (sla_breaches ops_data) (\<lambda>breaches.
          bind_err (st_progress ops_bar) (\<lambda>bar.
            Inr (Operations_Page (length (rows ops_data)) completed breaches))))
      | Operations_Calendar \<Rightarrow> timeline ops_data)"

text \<open>
  One run of the script after \<^verbatim>\<open>load_data()\<close> (lines 60 to 154). The widgets' answers are
  arguments: the chosen page, the chosen salespersons, the chosen dates and the two
  goals; so are the sums of pandas for the columns that are not of 64-bit integers. Lines 67 and 71 read the columns \<^verbatim>\<open>Salesperson\<close> and \<^verbatim>\<open>Date Created\<close> of a table
  that is not empty to fill the widgets, and raise \<^verbatim>\<open>KeyError\<close> when one is missing. The
  result holds the script's variables as they stand at the end.
\<close>

record view =
  v_sales_data :: frame
  v_ops_data :: frame
  v_filtered_sales :: frame
  v_sales_total :: total
  v_ops_total :: nat
  v_sales_progress :: progress
  v_ops_progress :: progress
  v_page :: page

definition dashboard ::
  "other_sums \<Rightarrow> frame \<Rightarrow> frame \<Rightarrow> view_section \<Rightarrow> cell list \<Rightarrow> int list \<Rightarrow> int \<Rightarrow> int
     \<Rightarrow> error + view" where
  "dashboard sums sales_data ops_data sect selected_salesperson date_range sales_goal ops_goal =
     bind_err (if \<not> frame_empty sales_data then col sales_data ''Salesperson'' else Inr [])
       (\<lambda>salespersons.
     bind_err (if \<not> frame_empty sales_data then col sales_data ''Date Created'' else Inr [])
       (\<lambda>created.
     bind_err (filtered_sales sales_data selected_salesperson date_range) (\<lambda>filtered.
     bind_err (sales_total sums filtered) (\<lambda>amount.
     bind_err (render sums sect filtered amount (sales_progress amount sales_goal)
                 ops_data (ops_progress (ops_total ops_data) ops_goal)) (\<lambda>shown.
       Inr \<lparr>v_sales_data = sales_data,
            v_ops_data = ops_data,
            v_filtered_sales = filtered,
            v_sales_total = amount,
            v_ops_total = ops_total ops_data,
            v_sales_progress = sales_progress amount sales_goal,
            v_ops_progress = ops_progress (ops_total ops_data) ops_goal,
            v_page = shown\<rparr>)))))"

section \<open>Loading the data (lines 29 to 58)\<close>

subsection \<open>Uploaded workbooks\<close>

text \<open>
  A workbook that \<^verbatim>\<open>pd.ExcelFile\<close> has opened: its sheets by name, each with the table
  \<^verbatim>\<open>xls.parse\<close> reads from it. The loop of lines 35 to 40 appends the sheet \<^verbatim>\<open>Sales\<close> and
  the sheet \<^verbatim>\<open>Operations\<close> of every workbook that has one:
  \<^verbatim>\<open>
  for f in uploaded_files:
      xls = pd.ExcelFile(f)
      if 'Sales' in xls.sheet_names:
          sales_frames.append(xls.parse('Sales'))
      if 'Operations' in xls.sheet_names:
          ops_frames.append(xls.parse('Operations'))
  \<close>
\<close>

type_synonym excel_file = "(string \<times> frame) list"

definition append_sheet :: "excel_file \<Rightarrow> string \<Rightarrow> frame list \<Rightarrow> frame list" where
  "append_sheet xls name frames =
     (case map_of xls name of Some df \<Rightarrow> frames @ [df] | None \<Rightarrow> frames)"

fun read_files :: "excel_file list \<Rightarrow> frame list \<Rightarrow> frame list \<Rightarrow> frame list \<times> frame list" where
  "read_files [] sales_frames ops_frames = (sales_frames, ops_frames)"
| "read_files (f # fs) sales_frames ops_frames =
     read_files fs (append_sheet f ''Sales'' sales_frames)
       (append_sheet f ''Operations'' ops_frames)"

text \<open>
  \<^verbatim>\<open>pd.concat(frames, ignore_index=True)\<close>: the columns of all tables, each once, in the
  order of their first appearance; the rows of all tables in order. A row keeps its cells
  in the columns of its own table; in a column that its table did not have it shows the
  missing value of that column: the missing date \<open>NaT\<close> when the column holds dates (and
  missing dates) in every table that has it, and \<open>NaN\<close> otherwise.

  A column of the result is one of 64-bit integers when it is one in every table, so that
  no cell of it had to be filled; a table that has neither a column nor a row is left
  aside in this, as pandas drops such a table before it concatenates.
\<close>

definition is_date :: "cell \<Rightarrow> bool" where
  "is_date c = (case c of Timestamp t \<Rightarrow> True | NaT \<Rightarrow> True | _ \<Rightarrow> False)"

definition column_cells :: "frame list \<Rightarrow> string \<Rightarrow> cell list" where
  "column_cells frames c =
     concat (map (\<lambda>df. if c \<in> set (columns df) then map (\<lambda>r. r c) (rows df) else []) frames)"

definition na_value :: "frame list \<Rightarrow> string \<Rightarrow> cell" where
  "na_value frames c =
     (if column_cells frames c \<noteq> [] \<and> list_all is_date (column_cells frames c) then NaT
      else NaN)"

definition reindex :: "(string \<Rightarrow> cell) \<Rightarrow> string list \<Rightarrow> row \<Rightarrow> row" where
  "reindex fill cols r = (\<lambda>c. if c \<in> set cols then r c else fill c)"

definition union_columns :: "frame list \<Rightarrow> string list" where
  "union_columns frames =
     foldl (\<lambda>acc df. acc @ filter (\<lambda>c. c \<notin> set acc) (columns df)) [] frames"

definition concat_int64 :: "frame list \<Rightarrow> string \<Rightarrow> bool" where
  "concat_int64 frames c =
     list_all (\<lambda>df. (columns df = [] \<and> rows df = [])
                    \<or> (c \<in> set (columns df) \<and> c \<in> int64_columns df)) frames"

definition concat_frames :: "frame list \<Rightarrow> frame" where
  "concat_frames frames =
     \<lparr>columns = union_columns frames,
      rows = concat (map (\<lambda>df. map (reindex (na_value frames) (columns df)) (rows df)) frames),
      int64_columns = set (filter (concat_int64 frames) (union_columns frames))\<rparr>"

subsection \<open>The demonstration data\<close>

text \<open>
  The outcomes of the random draws and the readings of the clock are given from outside:
  for each place where the script draws, the raw outcome of the draw for the \<open>i\<close>-th
  lead (or project), any natural number, which \<open>choice\<close> and \<open>randint\<close> bring into range;
  \<open>closed_coin e i\<close> says whether \<^verbatim>\<open>np.random.rand() > 0.5\<close> held for the \<open>i\<close>-th lead;
  \<open>today e\<close> is the reading of \<^verbatim>\<open>datetime.today()\<close> in line 50 and \<open>today_closed e i\<close> the
  one in line 51 for the \<open>i\<close>-th lead.
\<close>

record env =
  source_draw :: "nat \<Rightarrow> nat"
  status_draw :: "nat \<Rightarrow> nat"
  value_draw :: "nat \<Rightarrow> nat"
  owner_draw :: "nat \<Rightarrow> nat"
  closed_coin :: "nat \<Rightarrow> bool"
  closed_draw :: "nat \<Rightarrow> nat"
  project_draw :: "nat \<Rightarrow> nat"
  actual_draw :: "nat \<Rightarrow> nat"
  today :: int
  today_closed :: "nat \<Rightarrow> int"

text \<open>\<^verbatim>\<open>np.random.choice(xs)\<close> and \<^verbatim>\<open>np.random.randint(lo, hi)\<close>, which excludes \<open>hi\<close>.\<close>

definition choice :: "'a list \<Rightarrow> nat \<Rightarrow> 'a" where
  "choice xs r = xs ! (r mod length xs)"

definition randint :: "int \<Rightarrow> int \<Rightarrow> nat \<Rightarrow> int" where
  "randint lo hi r = lo + int (r mod nat (hi - lo))"

text \<open>
  \<^verbatim>\<open>pd.DataFrame({name: values, ...})\<close> for columns of one length. A list of dates and
  \<^verbatim>\<open>None\<close> becomes a column of dates in which \<^verbatim>\<open>None\<close> is the missing date \<open>NaT\<close>; a list
  of nothing but \<^verbatim>\<open>None\<close> has no date to tell pandas so and stays a column of objects
  holding \<^verbatim>\<open>None\<close>. A list of whole numbers that fit into 64 bits, or an array of
  them as \<^verbatim>\<open>np.random.randint\<close> returns it, becomes a column of 64-bit integers.
\<close>

definition frame_of_dict :: "(string \<times> cell list) list \<Rightarrow> frame" where
  "frame_of_dict d =
     \<lparr>columns = map fst d,
      rows = map (\<lambda>i c. case map_of d c of Some xs \<Rightarrow> xs ! i | None \<Rightarrow> NaN)
               [0 ..< (case d of [] \<Rightarrow> 0 | (name, xs) # rest \<Rightarrow> length xs)],
      int64_columns = set (map fst (filter (\<lambda>(name, xs). xs \<noteq> [] \<and> list_all is_int64 xs) d))\<rparr>"

definition infer_datetime :: "int option list \<Rightarrow> cell list" where
  "infer_datetime xs =
     (if list_all (\<lambda>x. x = None) xs then map (\<lambda>x. PyNone) xs
      else map (\<lambda>x. case x of None \<Rightarrow> NaT | Some t \<Rightarrow> Timestamp t) xs)"

text \<open>
  \<^verbatim>\<open>df[name] = values\<close> for as many values as the table has rows: a new column at the
  end, or new values for a column the table has, with the dtype of the values.
\<close>

definition assign :: "frame \<Rightarrow> string \<Rightarrow> cell list \<Rightarrow> frame" where
  "assign df name vals =
     \<lparr>columns = (if name \<in> set (columns df) then columns df else columns df @ [name]),
      rows = map (\<lambda>(r, v). r(name := v)) (zip (rows df) vals),
      int64_columns = (if vals \<noteq> [] \<and> list_all is_int64 vals then insert name (int64_columns df)
                       else int64_columns df - {name})\<rparr>"

text \<open>
  \<^verbatim>\<open>d + timedelta(days=n)\<close>: a date moves, the missing date stays missing, and Python
  raises \<^verbatim>\<open>TypeError\<close> for \<^verbatim>\<open>None + timedelta(days=n)\<close> (as for a number or a text).
\<close>

definition add_timedelta :: "cell \<Rightarrow> int \<Rightarrow> error + cell" where
  "add_timedelta d n =
     (case d of
        Timestamp t \<Rightarrow> Inr (Timestamp (t + timedelta_days n))
      | NaT \<Rightarrow> Inr NaT
      | _ \<Rightarrow> Inl TypeError)"

text \<open>
  Lines 44 to 52:
  \<^verbatim>\<open>
  sales = pd.DataFrame({
      'Lead ID': range(1, 21),
      'Lead Source': np.random.choice(['LinkedIn', 'Website', 'Referral', 'Cold Call'], 20),
      'Status': np.random.choice(['New', 'Contacted', 'Qualified', 'Proposal Sent',
                                  'Negotiation', 'Closed-Won', 'Closed-Lost'], 20),
      'Deal Value ($)': np.random.randint(5000, 50000, size=20),
      'Salesperson': np.random.choice(['Alice', 'Bob', 'Carol'], 20),
      'Date Created': pd.date_range(datetime.today() - timedelta(days=60),
                                    periods=20).to_pydatetime().tolist(),
      'Date Closed': [datetime.today() - timedelta(days=np.random.randint(1, 30))
                      if np.random.rand() > 0.5 else None for _ in range(20)]
  })
  \<close>
\<close>

definition date_closed :: "env \<Rightarrow> nat \<Rightarrow> int option" where
  "date_closed e i =
     (if closed_coin e i
      then Some (today_closed e i - timedelta_days (randint 1 30 (closed_draw e i)))
      else None)"

definition synthetic_sales :: "env \<Rightarrow> frame" where
  "synthetic_sales e =
     frame_of_dict
       [(''Lead ID'', map (\<lambda>i. Number (int i + 1)) [0..<20]),
        (''Lead Source'',
           map (\<lambda>i. Str (choice [''LinkedIn'', ''Website'', ''Referral'', ''Cold Call'']
                             (source_draw e i))) [0..<20]),
        (''Status'',
           map (\<lambda>i. Str (choice [''New'', ''Contacted'', ''Qualified'', ''Proposal Sent'',
                                  ''Negotiation'', ''Closed-Won'', ''Closed-Lost'']
                             (status_draw e i))) [0..<20]),
        (''Deal Value ($)'', map (\<lambda>i. Number (randint 5000 50000 (value_draw e i))) [0..<20]),
        (''Salesperson'',
           map (\<lambda>i. Str (choice [''Alice'', ''Bob'', ''Carol''] (owner_draw e i))) [0..<20]),
        (''Date Created'',
           map (\<lambda>i. Timestamp (today e - timedelta_days 60 + timedelta_days (int i))) [0..<20]),
        (''Date Closed'', infer_datetime (map (date_closed e) [0..<20]))]"

text \<open>
  Lines 53 to 57; the \<open>j\<close>-th project takes the \<open>j\<close>-th draw of lines 54 and 57:
  \<^verbatim>\<open>
  ops = sales[sales['Status'] == 'Closed-Won'].copy()
  ops['Project Status'] = np.random.choice(['Planning', 'In Progress', 'Stalled',
                                            'Completed'], len(ops))
  ops['Kickoff Date'] = [d + timedelta(days=3) for d in ops['Date Closed']]
  ops['Expected Completion'] = [d + timedelta(days=30) for d in ops['Kickoff Date']]
  ops['Actual Completion'] = [d + timedelta(days=np.random.randint(25, 40))
                              for d in ops['Kickoff Date']]
  \<close>
\<close>

definition synthetic_ops :: "env \<Rightarrow> frame \<Rightarrow> error + frame" where
  "synthetic_ops e sales =
     bind_err (col sales ''Status'') (\<lambda>status.
     let ops0 = select sales (eq_str status ''Closed-Won'');
         ops1 = assign ops0 ''Project Status''
                  (map (\<lambda>j. Str (choice [''Planning'', ''In Progress'', ''Stalled'', ''Completed'']
                                    (project_draw e j)))
                     [0 ..< length (rows ops0)])
     in
     bind_err (col ops1 ''Date Closed'') (\<lambda>closed.
     bind_err (mapM_err (\<lambda>d. add_timedelta d 3) closed) (\<lambda>kickoff.
     let ops2 = assign ops1 ''Kickoff Date'' kickoff in
     bind_err (col ops2 ''Kickoff Date'') (\<lambda>kick.
     bind_err (mapM_err (\<lambda>d. add_timedelta d 30) kick) (\<lambda>expected.
     let ops3 = assign ops2 ''Expected Completion'' expected in
     bind_err (col ops3 ''Kickoff Date'') (\<lambda>kick'.
     bind_err (mapM_err (\<lambda>(d, j). add_timedelta d (randint 25 40 (actual_draw e j)))
                 (zip kick' [0 ..< length kick'])) (\<lambda>actual.
       Inr (assign ops3 ''Actual Completion'' actual))))))))"

text \<open>
  \<^verbatim>\<open>load_data()\<close>: the placeholder for the external sheets first, then the uploads, then
  the demonstration data.
\<close>

definition load_data :: "bool \<Rightarrow> excel_file list \<Rightarrow> env \<Rightarrow> error + frame \<times> frame" where
  "load_data use_google_sheets uploaded_files e =
     (if use_google_sheets then Inr (DataFrame, DataFrame)
      else if uploaded_files \<noteq> [] then
        (case read_files uploaded_files [] [] of (sales_frames, ops_frames) \<Rightarrow>
           Inr (if sales_frames \<noteq> [] then concat_frames sales_frames else DataFrame,
                if ops_frames \<noteq> [] then concat_frames ops_frames else DataFrame))
      else
        (let sales = synthetic_sales e in
         bind_err (synthetic_ops e sales) (\<lambda>ops. Inr (sales, ops))))"

section \<open>The notions of the specification\<close>

text \<open>
  A lead collection is the empty table that \<open>load_data\<close> returns when it has no leads,
  or a table with the columns the script reads from a lead, in which every creation date
  is a date or missing and every deal value is a whole number or missing. A project
  collection is the empty table, or a table with the two completion dates of a project,
  each a date or missing.
\<close>

definition is_number :: "cell \<Rightarrow> bool" where
  "is_number c = (case c of Number v \<Rightarrow> True | NaN \<Rightarrow> True | _ \<Rightarrow> False)"

definition lead_columns :: "frame \<Rightarrow> bool" where
  "lead_columns df \<longleftrightarrow>
     {''Salesperson'', ''Date Created'', ''Status'', ''Deal Value ($)''} \<subseteq> set (columns df)
     \<and> list_all (\<lambda>r. is_date (r ''Date Created'') \<and> is_number (r ''Deal Value ($)'')) (rows df)"

definition lead_table :: "frame \<Rightarrow> bool" where
  "lead_table df \<longleftrightarrow> df = DataFrame \<or> lead_columns df"

definition project_columns :: "frame \<Rightarrow> bool" where
  "project_columns df \<longleftrightarrow>
     {''Actual Completion'', ''Expected Completion''} \<subseteq> set (columns df)
     \<and> list_all (\<lambda>r. is_date (r ''Actual Completion'') \<and> is_date (r ''Expected Completion''))
           (rows df)"

text \<open>
  A lead collection whose deal values are stored as 64-bit integers, as those of the
  demonstration data are.
\<close>

definition int64_deals :: "frame \<Rightarrow> bool" where
  "int64_deals df \<longleftrightarrow>
     ''Deal Value ($)'' \<in> int64_columns df
     \<and> list_all (\<lambda>r. is_int64 (r ''Deal Value ($)'')) (rows df)"


text \<open>
  The filter's criterion in the words of the specification: the owner is one of the
  chosen owners and the creation time lies between the two ends, both included. The ends
  are the chosen calendar dates as times, that is, midnight at the start of each.
\<close>

definition created_within :: "cell \<Rightarrow> int \<Rightarrow> int \<Rightarrow> bool" where
  "created_within c lo hi = (case c of Timestamp t \<Rightarrow> lo \<le> t \<and> t \<le> hi | _ \<Rightarrow> False)"

definition keeps :: "cell list \<Rightarrow> int \<Rightarrow> int \<Rightarrow> row \<Rightarrow> bool" where
  "keeps owners start end r \<longleftrightarrow>
     r ''Salesperson'' \<in> set owners
     \<and> created_within (r ''Date Created'') (to_datetime start) (to_datetime end)"

text \<open>The deal value of a lead, nothing for a missing one; a won lead; a late project.\<close>

definition deal_value :: "row \<Rightarrow> int" where
  "deal_value r = (case r ''Deal Value ($)'' of Number v \<Rightarrow> v | _ \<Rightarrow> 0)"

definition is_won :: "row \<Rightarrow> bool" where
  "is_won r \<longleftrightarrow> r ''Status'' = Str ''Closed-Won''"

definition later :: "cell \<Rightarrow> cell \<Rightarrow> bool" where
  "later a b =
     (case a of
        Timestamp x \<Rightarrow> (case b of Timestamp y \<Rightarrow> y < x | _ \<Rightarrow> False)
      | _ \<Rightarrow> False)"

definition is_late :: "row \<Rightarrow> bool" where
  "is_late r \<longleftrightarrow> later (r ''Actual Completion'') (r ''Expected Completion'')"

definition lead_ids :: "frame \<Rightarrow> cell list" where
  "lead_ids df = map (\<lambda>r. r ''Lead ID'') (rows df)"

text \<open>
  The sheets of one name in the uploaded workbooks, in the order of the workbooks, and
  the table \<open>load_data\<close> makes of them.
\<close>

definition sheets :: "string \<Rightarrow> excel_file list \<Rightarrow> frame list" where
  "sheets name files =
     concat (map (\<lambda>f. case map_of f name of Some df \<Rightarrow> [df] | None \<Rightarrow> []) files)"

definition loaded :: "frame list \<Rightarrow> frame" where
  "loaded frames = (if frames \<noteq> [] then concat_frames frames else DataFrame)"

section \<open>The demonstration data, row by row\<close>

text \<open>
  The \<open>i\<close>-th demonstration lead written out, and the project derived from a won lead
  when every addition of a \<^verbatim>\<open>timedelta\<close> goes through: \<open>shift n\<close> moves a date by \<open>n\<close> days
  and leaves the missing date missing.
\<close>

definition sales_columns :: "string list" where
  "sales_columns = [''Lead ID'', ''Lead Source'', ''Status'', ''Deal Value ($)'', ''Salesperson'',
     ''Date Created'', ''Date Closed'']"

definition project_columns_list :: "string list" where
  "project_columns_list = [''Project Status'', ''Kickoff Date'', ''Expected Completion'',
     ''Actual Completion'']"

definition all_none :: "env \<Rightarrow> bool" where
  "all_none e \<longleftrightarrow> list_all (\<lambda>i. \<not> closed_coin e i) [0..<20]"

definition closed_cell :: "env \<Rightarrow> nat \<Rightarrow> cell" where
  "closed_cell e i =
     (if all_none e then PyNone
      else case date_closed e i of None \<Rightarrow> NaT | Some t \<Rightarrow> Timestamp t)"

definition lead_row :: "env \<Rightarrow> nat \<Rightarrow> row" where
  "lead_row e i =
     (\<lambda>c. if c = ''Lead ID'' then Number (int i + 1)
          else if c = ''Lead Source'' then
            Str (choice [''LinkedIn'', ''Website'', ''Referral'', ''Cold Call''] (source_draw e i))
          else if c = ''Status'' then
            Str (choice [''New'', ''Contacted'', ''Qualified'', ''Proposal Sent'',
                         ''Negotiation'', ''Closed-Won'', ''Closed-Lost''] (status_draw e i))
          else if c = ''Deal Value ($)'' then Number (randint 5000 50000 (value_draw e i))
          else if c = ''Salesperson'' then
            Str (choice [''Alice'', ''Bob'', ''Carol''] (owner_draw e i))
          else if c = ''Date Created'' then
            Timestamp (today e - timedelta_days 60 + timedelta_days (int i))
          else if c = ''Date Closed'' then closed_cell e i
          else NaN)"

definition shift :: "int \<Rightarrow> cell \<Rightarrow> cell" where
  "shift n d = (case d of Timestamp t \<Rightarrow> Timestamp (t + timedelta_days n) | _ \<Rightarrow> NaT)"

definition project_row :: "env \<Rightarrow> nat \<Rightarrow> row \<Rightarrow> row" where
  "project_row e j r =
     r(''Project Status'' :=
         Str (choice [''Planning'', ''In Progress'', ''Stalled'', ''Completed''] (project_draw e j)),
       ''Kickoff Date'' := shift 3 (r ''Date Closed''),
       ''Expected Completion'' := shift 30 (shift 3 (r ''Date Closed'')),
       ''Actual Completion'' :=
         shift (randint 25 40 (actual_draw e j)) (shift 3 (r ''Date Closed'')))"

definition won_leads :: "env \<Rightarrow> row list" where
  "won_leads e = filter is_won (rows (synthetic_sales e))"

definition synthetic_projects :: "env \<Rightarrow> frame" where
  "synthetic_projects e =
     \<lparr>columns = sales_columns @ project_columns_list,
      rows = map (\<lambda>j. project_row e j (won_leads e ! j)) [0..<length (won_leads e)],
      int64_columns = {''Lead ID'', ''Deal Value ($)''}\<rparr>"

section \<open>Examples\<close>

text \<open>The two leads and the two projects of the specification's scenarios.\<close>

definition scenario_leads :: frame where
  "scenario_leads =
     frame_of_dict
       [(''Lead ID'', [Number 1, Number 2]),
        (''Status'', [Str ''Closed-Won'', Str ''New'']),
        (''Deal Value ($)'', [Number 10000, Number 5000]),
        (''Salesperson'', [Str ''A'', Str ''B'']),
        (''Date Created'', [Timestamp (timedelta_days 1), Timestamp (timedelta_days 2)])]"

definition scenario_projects :: frame where
  "scenario_projects =
     frame_of_dict
       [(''Lead ID'', [Number 1, Number 2]),
        (''Project Status'', [Str ''Completed'', Str ''Stalled'']),
        (''Expected Completion'', [Timestamp (timedelta_days 10), Timestamp (timedelta_days 10)]),
        (''Actual Completion'', [Timestamp (timedelta_days 9), Timestamp (timedelta_days 15)])]"


text \<open>
  Sums for the other dtypes that raise; the examples have no sum but those of 64-bit
  integers.
\<close>

definition raising_sums :: other_sums where
  "raising_sums = \<lparr>series_other = (\<lambda>cells. Inl TypeError), groupby_other = (\<lambda>cells. Inl TypeError)\<rparr>"



text \<open>
  Draws in which the first two leads are won and all others new, every lead but the
  first has a close date, one day before a clock that stands at day 100, and every project
  is completed 35 days after its kickoff.
\<close>

definition example_env :: env where
  "example_env =
     \<lparr>source_draw = (\<lambda>i. 0),
      status_draw = (\<lambda>i. if i < 2 then 5 else 0),
      value_draw = (\<lambda>i. 0),
      owner_draw = (\<lambda>i. 0),
      closed_coin = (\<lambda>i. 0 < i),
      closed_draw = (\<lambda>i. 0),
      project_draw = (\<lambda>j. 0),
      actual_draw = (\<lambda>j. 10),
      today = timedelta_days 100,
      today_closed = (\<lambda>i. timedelta_days 100)\<rparr>"

text \<open>Draws in which every lead is won and no lead has a close date.\<close>

definition crash_env :: env where
  "crash_env =
     \<lparr>source_draw = (\<lambda>i. 0),
      status_draw = (\<lambda>i. 5),
      value_draw = (\<lambda>i. 0),
      owner_draw = (\<lambda>i. 0),
      closed_coin = (\<lambda>i. False),
      closed_draw = (\<lambda>i. 0),
      project_draw = (\<lambda>j. 0),
      actual_draw = (\<lambda>j. 0),
      today = 0,
      today_closed = (\<lambda>i. 0)\<rparr>"

text \<open>Draws in which the first lead alone is won and no lead has a close date.\<close>

definition one_won_env :: env where
  "one_won_env =
     \<lparr>source_draw = (\<lambda>i. 0),
      status_draw = (\<lambda>i. if i = 0 then 5 else 0),
      value_draw = (\<lambda>i. 0),
      owner_draw = (\<lambda>i. 0),
      closed_coin = (\<lambda>i. False),
      closed_draw = (\<lambda>i. 0),
      project_draw = (\<lambda>j. 0),
      actual_draw = (\<lambda>j. 0),
      today = 0,
      today_closed = (\<lambda>i. 0)\<rparr>"

section \<open>Proofs\<close>

subsection \<open>Errors, masks and lists\<close>

lemma bind_err_Inr [simp]: "bind_err (Inr x) f = f x"
  by (simp add: bind_err_def)

lemma bind_err_Inl [simp]: "bind_err (Inl e) f = Inl e"
  by (simp add: bind_err_def)

lemma bind_err_eq_Inr:
  "bind_err m f = Inr y \<longleftrightarrow> (\<exists>x. m = Inr x \<and> f x = Inr y)"
  by (cases m) simp_all

lemma mapM_err_total:
  "(\<And>x. x \<in> set xs \<Longrightarrow> f x = Inr (g x)) \<Longrightarrow> mapM_err f xs = Inr (map g xs)"
  by (induction xs) simp_all

lemma select_map: "map fst (filter snd (zip xs (map p xs))) = filter p xs"
  by (induction xs) simp_all

lemma mask_and_map: "mask_and (map p xs) (map q xs) = map (\<lambda>x. p x \<and> q x) xs"
  by (induction xs) (simp_all add: mask_and_def)

lemma select_rows: "select df (map p (rows df)) = df\<lparr>rows := filter p (rows df)\<rparr>"
  by (simp add: select_def select_map)

lemma zip_map_same: "zip (map f xs) (map g xs) = map (\<lambda>x. (f x, g x)) xs"
  by (induction xs) simp_all

lemma count_true_map: "count_true (map p xs) = length (filter p xs)"
  by (induction xs) (simp_all add: count_true_def)

subsection \<open>Binary floating point\<close>

lemma round_half_even_nonneg: "0 \<le> a \<Longrightarrow> 0 < b \<Longrightarrow> 0 \<le> round_half_even a b"
  by (simp add: round_half_even_def Let_def pos_imp_zdiv_nonneg_iff)

lemma round_half_even_pos: "0 < b \<Longrightarrow> b \<le> a \<Longrightarrow> 0 < round_half_even a b"
proof -
  assume b: "0 < b" and h: "b \<le> a"
  then have "b div b \<le> a div b"
    by (intro zdiv_mono1)
  with b have "1 \<le> a div b" by simp
  then show ?thesis by (auto simp: round_half_even_def Let_def)
qed

lemma bitlen_nonneg: "0 \<le> bitlen n"
  by (induction n rule: bitlen.induct) (subst bitlen.simps, simp)

lemma bitlen_bounds:
  "0 < n \<Longrightarrow> 2 ^ nat (bitlen n - 1) \<le> n \<and> n < 2 ^ nat (bitlen n)"
proof (induction n rule: bitlen.induct)
  case (1 n)
  show ?case
  proof (cases "n = 1")
    case True
    have "bitlen 1 = 1" by (simp add: bitlen.simps)
    with True show ?thesis by simp
  next
    case False
    with "1.prems" have h: "0 < n div 2" by simp
    from "1.prems" have nz: "\<not> n \<le> 0" by simp
    note ih = "1.IH" [OF nz h]
    have bl: "bitlen n = 1 + bitlen (n div 2)"
      using nz by (subst bitlen.simps) simp
    have pos: "0 < bitlen (n div 2)"
      using h bitlen_nonneg [of "n div 2 div 2"] by (subst bitlen.simps) simp
    then have p1: "(2::int) ^ nat (bitlen (n div 2)) = 2 * 2 ^ nat (bitlen (n div 2) - 1)"
      by (metis Suc_nat_eq_nat_zadd1 add.commute diff_add_cancel diff_ge_0_iff_ge dual_order.strict_iff_not
          int_one_le_iff_zero_less power_Suc)
    have p2: "(2::int) ^ nat (1 + bitlen (n div 2)) = 2 * 2 ^ nat (bitlen (n div 2))"
      using bitlen_nonneg [of "n div 2"] by (simp add: nat_add_distrib)
    from ih have lo: "2 * 2 ^ nat (bitlen (n div 2) - 1) \<le> n" by linarith
    from ih have hi: "n < 2 * 2 ^ nat (bitlen (n div 2))" by linarith
    show ?thesis
      unfolding bl using lo hi p1 p2 by simp
  qed
qed


lemma nearest_nonneg: "0 \<le> a \<Longrightarrow> 0 < b \<Longrightarrow> 0 \<le> fst (nearest a b)"
  by (simp add: nearest_def Let_def round_half_even_nonneg)

lemma binary64_nonneg: "0 \<le> a \<Longrightarrow> 0 < b \<Longrightarrow> 0 \<le> fst (binary64 a b)"
  by (simp add: binary64_def nearest_nonneg)

lemma den_pos: "0 < den x"
  by (cases x) (simp add: den_def)

lemma num_nonneg: "0 \<le> fst x \<Longrightarrow> 0 \<le> num x"
  by (cases x) (simp add: num_def)

lemma num_pos: "0 < fst x \<Longrightarrow> 0 < num x"
  by (cases x) (simp add: num_def)

lemma mul100_nonneg: "0 \<le> fst x \<Longrightarrow> 0 \<le> fst (mul100 x)"
  by (simp add: mul100_def binary64_nonneg num_nonneg den_pos)

lemma py_round2_nonneg: "0 \<le> fst x \<Longrightarrow> 0 \<le> py_round2 x"
  by (simp add: py_round2_def round_half_even_nonneg num_nonneg den_pos)

lemma np_round2_nonneg: "0 \<le> fst x \<Longrightarrow> 0 \<le> np_round2 x"
  by (simp add: np_round2_def Let_def round_half_even_nonneg num_nonneg den_pos mul100_nonneg)

lemma nearest_pos:
  assumes a: "0 < a" and b: "0 < b"
  shows "0 < fst (nearest a b)"
proof -
  define d where "d = bitlen a - bitlen b"
  define k where "k = (if (if 0 \<le> d then b * 2 ^ nat d \<le> a else b \<le> a * 2 ^ nat (- d))
               then d else d - 1)"
  define e where "e = k - 52"
  note ba = bitlen_bounds [OF a] and bb = bitlen_bounds [OF b]
  have la: "0 < bitlen a" using a bitlen_nonneg [of "a div 2"] by (subst bitlen.simps) simp
  have lb: "0 < bitlen b" using b bitlen_nonneg [of "b div 2"] by (subst bitlen.simps) simp
  \<comment> \<open>\<open>b * 2 ^ k \<le> a\<close>, written without negative powers\<close>
  have below: "b * 2 ^ nat (bitlen a - 1) \<le> a * 2 ^ nat (bitlen b)"
  proof -
    have "b * 2 ^ nat (bitlen a - 1) \<le> 2 ^ nat (bitlen b) * 2 ^ nat (bitlen a - 1)"
      using bb by (intro mult_right_mono) simp_all
    also have "\<dots> \<le> 2 ^ nat (bitlen b) * a"
      using ba by (intro mult_left_mono) simp_all
    finally show ?thesis by (simp add: mult.commute)
  qed
  have key: "if 0 \<le> e then b * 2 ^ nat e \<le> a else b \<le> a * 2 ^ nat (- e)"
  proof -
    have le: "e \<le> bitlen a - 1 - bitlen b" by (simp add: e_def k_def d_def)
    show ?thesis
    proof (cases "0 \<le> e")
      case True
      then have "nat e + nat (bitlen b) \<le> nat (bitlen a - 1)" using le lb by linarith
      then have "(2::int) ^ (nat e + nat (bitlen b)) \<le> 2 ^ nat (bitlen a - 1)"
        by (intro power_increasing) simp_all
      then have "b * 2 ^ nat e * 2 ^ nat (bitlen b) \<le> b * 2 ^ nat (bitlen a - 1)"
        using b by (simp add: power_add mult.assoc)
      with below have "b * 2 ^ nat e * 2 ^ nat (bitlen b) \<le> a * 2 ^ nat (bitlen b)" by linarith
      then have "b * 2 ^ nat e \<le> a" by simp
      with True show ?thesis by simp
    next
      case False
      then have "nat (bitlen b) \<le> nat (bitlen a - 1) + nat (- e)" using le la by linarith
      then have p: "(2::int) ^ nat (bitlen b) \<le> 2 ^ (nat (bitlen a - 1) + nat (- e))"
        by (intro power_increasing) simp_all
      have "b * 2 ^ nat (bitlen a - 1) * 2 ^ nat (bitlen b)
            \<le> a * 2 ^ nat (bitlen b) * 2 ^ nat (bitlen b)"
        using below by (intro mult_right_mono) simp_all
      also have "\<dots> \<le> a * 2 ^ (nat (bitlen a - 1) + nat (- e)) * 2 ^ nat (bitlen b)"
        using p a by (intro mult_right_mono mult_left_mono) simp_all
      finally have "b * 2 ^ nat (bitlen a - 1) * 2 ^ nat (bitlen b)
            \<le> (a * 2 ^ nat (- e)) * 2 ^ nat (bitlen a - 1) * 2 ^ nat (bitlen b)"
        by (simp add: power_add mult_ac)
      then have "b \<le> a * 2 ^ nat (- e)" by simp
      with False show ?thesis by simp
    qed
  qed
  have "fst (nearest a b)
        = (if 0 \<le> e then round_half_even a (b * 2 ^ nat e)
           else round_half_even (a * 2 ^ nat (- e)) b)"
    by (simp add: nearest_def Let_def e_def k_def d_def)
  with key b show ?thesis
    by (auto intro!: round_half_even_pos)
qed

lemma binary64_pos: "0 < a \<Longrightarrow> 0 < b \<Longrightarrow> 0 < fst (binary64 a b)"
  by (simp add: binary64_def nearest_pos)

lemma div_double_nonneg: "0 \<le> fst x \<Longrightarrow> 0 < fst y \<Longrightarrow> 0 \<le> fst (div_double x y)"
proof -
  assume x: "0 \<le> fst x" and y: "0 < fst y"
  have "0 \<le> num x * den y"
    using num_nonneg [OF x] den_pos [of y] by simp
  moreover have "0 < den x * num y"
    using den_pos [of x] num_pos [OF y] by simp
  ultimately show ?thesis
    unfolding div_double_def by (rule binary64_nonneg)
qed

lemma ops_progress_bar: "st_progress (ops_progress n goal) = Inr ()"
proof (cases "0 < goal")
  case True
  then have "0 \<le> fst (binary64 (int n) goal)" by (intro binary64_nonneg) simp_all
  then have "0 \<le> py_round2 (mul100 (binary64 (int n) goal))"
    by (intro py_round2_nonneg mul100_nonneg)
  with True show ?thesis by (simp add: ops_progress_def st_progress_def)
next
  case False
  then show ?thesis by (simp add: ops_progress_def st_progress_def)
qed

lemma sales_progress_nonneg:
  assumes "0 \<le> amount" "0 < goal"
  shows "0 \<le> np_round2 (mul100 (div_double (binary64 amount 1) (binary64 goal 1)))"
proof -
  have "0 \<le> fst (binary64 amount 1)" using assms by (intro binary64_nonneg) simp_all
  moreover have "0 < fst (binary64 goal 1)" using assms by (intro binary64_pos) simp_all
  ultimately show ?thesis
    by (intro np_round2_nonneg mul100_nonneg div_double_nonneg)
qed

text \<open>
  Claim C4, as amended. For every value that is not negative and every goal of at least
  1, the goal progress is the result of the script's computation in binary floating
  point: the quotient of value and goal rounded to the nearest binary64 value, times 100
  rounded again, then rounded to two decimals (by numpy for the sales total, by Python for
  the project count). The result is not negative, and it is 0 for the value 0. It need
  not be the exact quotient times 100 rounded to two decimals.
\<close>

theorem goal_progress_nonneg:
  assumes "0 \<le> amount" and "1 \<le> goal"
  shows "(\<exists>n. sales_progress (Numpy_int amount) goal = Rounded n \<and> 0 \<le> n
              \<and> n = np_round2 (mul100 (div_double (binary64 amount 1) (binary64 goal 1))))
         \<and> (\<exists>n. ops_progress (nat amount) goal = Rounded n \<and> 0 \<le> n
              \<and> n = py_round2 (mul100 (binary64 amount goal)))
         \<and> (amount = 0 \<longrightarrow>
               sales_progress (Numpy_int amount) goal = Rounded 0
               \<and> ops_progress (nat amount) goal = Rounded 0)"
proof -
  from assms have g: "0 < goal" by simp
  have s: "0 \<le> np_round2 (mul100 (div_double (binary64 amount 1) (binary64 goal 1)))"
    using assms(1) g by (rule sales_progress_nonneg)
  have "0 \<le> fst (binary64 amount goal)" using assms(1) g by (rule binary64_nonneg)
  then have p: "0 \<le> py_round2 (mul100 (binary64 amount goal))"
    by (intro py_round2_nonneg mul100_nonneg)
  have z: "sales_progress (Numpy_int 0) goal = Rounded 0 \<and> ops_progress (nat 0) goal = Rounded 0"
    using g
    by (simp add: sales_progress_def ops_progress_def binary64_def div_double_def mul100_def
        np_round2_def py_round2_def num_def den_def round_half_even_def)
  from s p z g assms(1) show ?thesis
    by (auto simp: sales_progress_def ops_progress_def)
qed

theorem goal_progress_nonneg_witness:
  "(0::int) \<le> 23 \<and> (1::int) \<le> 160
   \<and> ops_progress 23 160 = Rounded 1437
   \<and> sales_progress (Numpy_int 23) 160 = Rounded 1437
   \<and> sales_progress (Numpy_int 0) 160 = Rounded 0"
proof -
  note t = goal_progress_nonneg [of 23 160]
  note z = goal_progress_nonneg [of 0 160, THEN conjunct2, THEN conjunct2]
  have a: "np_round2 (mul100 (div_double (binary64 23 1) (binary64 160 1))) = 1437"
    by code_simp
  have b: "py_round2 (mul100 (binary64 23 160)) = 1437"
    by code_simp
  from t a have "sales_progress (Numpy_int 23) 160 = Rounded 1437" by auto
  moreover from t b have "ops_progress (nat 23) 160 = Rounded 1437" by auto
  then have "ops_progress 23 160 = Rounded 1437" by simp
  moreover from z have "sales_progress (Numpy_int 0) 160 = Rounded 0" by simp
  ultimately show ?thesis by simp
qed

theorem goal_progress_inexact_counterexample:
  "ops_progress 23 160 = Rounded 1437
   \<and> round_half_even (23 * 100 * 100) 160 = 1438
   \<and> (2::int) * (23 * 100 * 100) = 160 * (2 * 1437 + 1)"
proof -
  have "py_round2 (mul100 (binary64 23 160)) = 1437"
    by code_simp
  then have "ops_progress 23 160 = Rounded 1437"
    by (simp add: ops_progress_def)
  moreover have "round_half_even (23 * 100 * 100) 160 = 1438"
    by (simp add: round_half_even_def)
  ultimately show ?thesis by simp
qed

subsection \<open>The examples written out\<close>

lemma scenario_leads_eq:
  "scenario_leads =
     \<lparr>columns = [''Lead ID'', ''Status'', ''Deal Value ($)'', ''Salesperson'', ''Date Created''],
      rows = [\<lambda>c. if c = ''Lead ID'' then Number 1
                   else if c = ''Status'' then Str ''Closed-Won''
                   else if c = ''Deal Value ($)'' then Number 10000
                   else if c = ''Salesperson'' then Str ''A''
                   else if c = ''Date Created'' then Timestamp (timedelta_days 1)
                   else NaN,
              \<lambda>c. if c = ''Lead ID'' then Number 2
                   else if c = ''Status'' then Str ''New''
                   else if c = ''Deal Value ($)'' then Number 5000
                   else if c = ''Salesperson'' then Str ''B''
                   else if c = ''Date Created'' then Timestamp (timedelta_days 2)
                   else NaN],
      int64_columns = {''Lead ID'', ''Deal Value ($)''}\<rparr>"
  by (simp add: scenario_leads_def frame_of_dict_def fun_eq_iff is_int64_def)

lemma lead_table_scenario: "lead_table scenario_leads"
  by (simp add: lead_table_def lead_columns_def scenario_leads_eq is_date_def is_number_def)



lemma scenario_projects_eq:
  "scenario_projects =
     \<lparr>columns = [''Lead ID'', ''Project Status'', ''Expected Completion'', ''Actual Completion''],
      rows = [\<lambda>c. if c = ''Lead ID'' then Number 1
                   else if c = ''Project Status'' then Str ''Completed''
                   else if c = ''Expected Completion'' then Timestamp (timedelta_days 10)
                   else if c = ''Actual Completion'' then Timestamp (timedelta_days 9)
                   else NaN,
              \<lambda>c. if c = ''Lead ID'' then Number 2
                   else if c = ''Project Status'' then Str ''Stalled''
                   else if c = ''Expected Completion'' then Timestamp (timedelta_days 10)
                   else if c = ''Actual Completion'' then Timestamp (timedelta_days 15)
                   else NaN],
      int64_columns = {''Lead ID''}\<rparr>"
  by (simp add: scenario_projects_def frame_of_dict_def fun_eq_iff is_int64_def)


lemma upt_20:
  "[0..<20] = [0, 1, 2, 3, 4, 5, 6, 7, 8, 9, 10, 11, 12, 13, 14, 15, 16, 17, 18, 19]"
  by code_simp

lemma upt_1_21:
  "[1..<21] = [1, 2, 3, 4, 5, 6, 7, 8, 9, 10, 11, 12, 13, 14, 15, 16, 17, 18, 19, 20]"
  by code_simp

subsection \<open>The filter\<close>

lemma ge_ts_dates:
  assumes "list_all (\<lambda>r. is_date (r c)) rs"
  shows "ge_ts (map (\<lambda>r. r c) rs) t
         = Inr (map (\<lambda>r. case r c of Timestamp x \<Rightarrow> t \<le> x | _ \<Rightarrow> False) rs)"
proof -
  have "mapM_err (\<lambda>c. case c of Timestamp x \<Rightarrow> Inr (t \<le> x) | NaT \<Rightarrow> Inr False | _ \<Rightarrow> Inl TypeError)
          (map (\<lambda>r. r c) rs)
        = Inr (map (\<lambda>c. case c of Timestamp x \<Rightarrow> t \<le> x | _ \<Rightarrow> False) (map (\<lambda>r. r c) rs))"
    using assms
    by (intro mapM_err_total) (auto simp: list_all_iff is_date_def split: cell.splits)
  then show ?thesis by (simp add: ge_ts_def comp_def)
qed

lemma le_ts_dates:
  assumes "list_all (\<lambda>r. is_date (r c)) rs"
  shows "le_ts (map (\<lambda>r. r c) rs) t
         = Inr (map (\<lambda>r. case r c of Timestamp x \<Rightarrow> x \<le> t | _ \<Rightarrow> False) rs)"
proof -
  have "mapM_err (\<lambda>c. case c of Timestamp x \<Rightarrow> Inr (x \<le> t) | NaT \<Rightarrow> Inr False | _ \<Rightarrow> Inl TypeError)
          (map (\<lambda>r. r c) rs)
        = Inr (map (\<lambda>c. case c of Timestamp x \<Rightarrow> x \<le> t | _ \<Rightarrow> False) (map (\<lambda>r. r c) rs))"
    using assms
    by (intro mapM_err_total) (auto simp: list_all_iff is_date_def split: cell.splits)
  then show ?thesis by (simp add: le_ts_def comp_def)
qed

lemma keeps_alt:
  "keeps owners start end r \<longleftrightarrow>
     ((r ''Salesperson'' \<in> set owners
       \<and> (case r ''Date Created'' of Timestamp x \<Rightarrow> to_datetime start \<le> x | _ \<Rightarrow> False))
      \<and> (case r ''Date Created'' of Timestamp x \<Rightarrow> x \<le> to_datetime end | _ \<Rightarrow> False))"
  by (auto simp: keeps_def created_within_def split: cell.splits)

lemma filtered_sales_lead_columns:
  assumes "lead_columns df" and "rows df \<noteq> []"
  shows "filtered_sales df owners [start, end]
         = Inr (df\<lparr>rows := filter (keeps owners start end) (rows df)\<rparr>)"
proof -
  have cols: "''Salesperson'' \<in> set (columns df)" "''Date Created'' \<in> set (columns df)"
    using assms(1) by (simp_all add: lead_columns_def)
  have dates: "list_all (\<lambda>r. is_date (r ''Date Created'')) (rows df)"
    using assms(1) by (simp add: lead_columns_def list_all_iff)
  have ne: "\<not> frame_empty df"
    using cols assms(2) by (auto simp: frame_empty_def)
  show ?thesis
    using ne cols
    by (simp add: filtered_sales_def col_def getitem_def ge_ts_dates [OF dates]
        le_ts_dates [OF dates] isin_def mask_and_map select_rows keeps_alt [abs_def])
qed

lemma filtered_sales_empty: "frame_empty df \<Longrightarrow> filtered_sales df owners dr = Inr DataFrame"
  by (simp add: filtered_sales_def)

lemma filtered_sales_lead_table:
  assumes "lead_table df"
  shows "filtered_sales df owners [start, end]
         = Inr (if rows df = [] then DataFrame
                else df\<lparr>rows := filter (keeps owners start end) (rows df)\<rparr>)"
proof (cases "rows df = []")
  case True
  then show ?thesis by (simp add: filtered_sales_empty frame_empty_def)
next
  case False
  with assms have "lead_columns df" by (auto simp: lead_table_def DataFrame_def)
  with False show ?thesis by (simp add: filtered_sales_lead_columns)
qed



lemma lead_columns_filter:
  "lead_columns df \<Longrightarrow> lead_columns (df\<lparr>rows := filter P (rows df)\<rparr>)"
  by (simp add: lead_columns_def list_all_iff)

lemma int64_deals_filter:
  "int64_deals df \<Longrightarrow> int64_deals (df\<lparr>rows := filter P (rows df)\<rparr>)"
  by (simp add: int64_deals_def list_all_iff)

text \<open>
  Claim C7, as amended. For every lead collection, every list of chosen owners and every
  pair of chosen dates, filtering the filter's result again with the same choices returns
  the same rows; it returns the same table whenever the first result has a row. A first
  result without rows keeps the columns of the leads, and filtering it again returns the
  empty table \<^verbatim>\<open>pd.DataFrame()\<close>, which has no columns.
\<close>

theorem filtered_sales_twice:
  assumes "lead_table sales_data"
  shows "\<exists>out again.
           filtered_sales sales_data owners [start, end] = Inr out
           \<and> filtered_sales out owners [start, end] = Inr again
           \<and> rows again = rows out
           \<and> (rows out \<noteq> [] \<longrightarrow> again = out)
           \<and> (rows out = [] \<longrightarrow> again = DataFrame)"
proof -
  define out where "out = (if rows sales_data = [] then DataFrame
     else sales_data\<lparr>rows := filter (keeps owners start end) (rows sales_data)\<rparr>)"
  define again where "again = (if rows out = [] then DataFrame
     else out\<lparr>rows := filter (keeps owners start end) (rows out)\<rparr>)"
  have run: "filtered_sales sales_data owners [start, end] = Inr out"
    unfolding out_def by (rule filtered_sales_lead_table [OF assms])
  have "lead_table out"
  proof (cases "rows sales_data = []")
    case True
    then show ?thesis by (simp add: out_def lead_table_def)
  next
    case False
    with assms have "lead_columns sales_data" by (auto simp: lead_table_def DataFrame_def)
    with False show ?thesis by (simp add: out_def lead_table_def lead_columns_filter)
  qed
  then have run2: "filtered_sales out owners [start, end] = Inr again"
    unfolding again_def by (rule filtered_sales_lead_table)
  have stable: "filter (keeps owners start end) (rows out) = rows out"
    by (simp add: out_def DataFrame_def)
  have "rows again = rows out"
    by (simp add: again_def stable DataFrame_def)
  moreover have "rows out \<noteq> [] \<longrightarrow> again = out"
    by (simp add: again_def stable)
  moreover have "rows out = [] \<longrightarrow> again = DataFrame"
    by (simp add: again_def)
  ultimately show ?thesis using run run2 by blast
qed

theorem filtered_sales_twice_witness:
  "lead_table scenario_leads
   \<and> (\<exists>out. filtered_sales scenario_leads [Str ''A''] [0, 5] = Inr out
          \<and> filtered_sales out [Str ''A''] [0, 5] = Inr out
          \<and> lead_ids out = [Number 1])"
proof -
  from filtered_sales_twice [OF lead_table_scenario, of "[Str ''A'']" 0 5]
  obtain out again where run: "filtered_sales scenario_leads [Str ''A''] [0, 5] = Inr out"
    and run2: "filtered_sales out [Str ''A''] [0, 5] = Inr again"
    and same: "rows out \<noteq> [] \<longrightarrow> again = out"
    by blast
  have "out = scenario_leads\<lparr>rows := filter (keeps [Str ''A''] 0 5) (rows scenario_leads)\<rparr>"
    using run filtered_sales_lead_table [OF lead_table_scenario, of "[Str ''A'']" 0 5]
    by (simp add: scenario_leads_eq)
  then have ids: "lead_ids out = [Number 1]"
    by (simp add: lead_ids_def scenario_leads_eq keeps_def created_within_def to_datetime_def
        timedelta_days_def)
  then have "rows out \<noteq> []" by (auto simp: lead_ids_def)
  with same run2 have "filtered_sales out [Str ''A''] [0, 5] = Inr out" by simp
  with run ids lead_table_scenario show ?thesis
    by (intro conjI exI [of _ out]) assumption+
qed

theorem filtered_sales_twice_counterexample:
  "filtered_sales scenario_leads [Str ''C''] [0, 5] = Inr (scenario_leads\<lparr>rows := []\<rparr>)
   \<and> filtered_sales (scenario_leads\<lparr>rows := []\<rparr>) [Str ''C''] [0, 5] = Inr DataFrame
   \<and> scenario_leads\<lparr>rows := []\<rparr> \<noteq> DataFrame"
proof -
  have "filtered_sales scenario_leads [Str ''C''] [0, 5] = Inr (scenario_leads\<lparr>rows := []\<rparr>)"
    using filtered_sales_lead_table [OF lead_table_scenario, of "[Str ''C'']" 0 5]
    by (simp add: scenario_leads_eq keeps_def)
  moreover have "filtered_sales (scenario_leads\<lparr>rows := []\<rparr>) [Str ''C''] [0, 5] = Inr DataFrame"
    by (simp add: filtered_sales_empty frame_empty_def)
  moreover have "scenario_leads\<lparr>rows := []\<rparr> \<noteq> DataFrame"
    by (simp add: scenario_leads_eq DataFrame_def)
  ultimately show ?thesis by simp
qed

subsection \<open>The total of the won deals\<close>


lemma sales_total_no_rows: "rows df = [] \<Longrightarrow> sales_total sums df = Inr (Python_int 0)"
  by (simp add: sales_total_def frame_empty_def)

lemma sales_total_int64:
  assumes "lead_columns df" and "int64_deals df" and "rows df \<noteq> []"
  shows "sales_total sums df
         = Inr (Numpy_int (wrap64 (sum_list (map deal_value (filter is_won (rows df))))))"
proof -
  have cols: "''Status'' \<in> set (columns df)" "''Deal Value ($)'' \<in> set (columns df)"
    using assms(1) by (simp_all add: lead_columns_def)
  have flag: "''Deal Value ($)'' \<in> int64_columns df"
    using assms(2) by (simp add: int64_deals_def)
  have nums: "list_all is_int64 (map (\<lambda>r. r ''Deal Value ($)'') (filter is_won (rows df)))"
    using assms(2) by (simp add: int64_deals_def list_all_iff)
  have ne: "\<not> frame_empty df"
    using cols assms(3) by (auto simp: frame_empty_def)
  have sel: "select df (eq_str (map (\<lambda>r. r ''Status'') (rows df)) ''Closed-Won'')
             = df\<lparr>rows := filter is_won (rows df)\<rparr>"
    by (simp add: eq_str_def comp_def select_rows is_won_def [abs_def])
  have val: "map (\<lambda>r. whole (r ''Deal Value ($)'')) rs = map deal_value rs" for rs
    by (simp add: whole_def deal_value_def)
  show ?thesis
    using ne cols flag nums
    by (simp add: sales_total_def col_def sel sum_cells_def comp_def val)
qed




subsection \<open>The SLA metric\<close>

lemma gt_cell_dates:
  "is_date a \<Longrightarrow> is_date b \<Longrightarrow> gt_cell (a, b) = Inr (later a b)"
  by (cases a; cases b) (simp_all add: is_date_def later_def)

lemma gt_series_dates:
  assumes "list_all (\<lambda>r. is_date (r a) \<and> is_date (r b)) rs"
  shows "gt_series (map (\<lambda>r. r a) rs) (map (\<lambda>r. r b) rs)
         = Inr (map (\<lambda>r. later (r a) (r b)) rs)"
proof -
  have "mapM_err gt_cell (map (\<lambda>r. (r a, r b)) rs)
        = Inr (map (\<lambda>p. later (fst p) (snd p)) (map (\<lambda>r. (r a, r b)) rs))"
    using assms
    by (intro mapM_err_total) (auto simp: list_all_iff gt_cell_dates)
  then show ?thesis by (simp add: gt_series_def zip_map_map comp_def zip_same_conv_map)
qed

lemma is_late_later: "is_late r = later (r ''Actual Completion'') (r ''Expected Completion'')"
  by (simp add: is_late_def)

lemma sla_breaches_project_columns:
  assumes "project_columns df"
  shows "sla_breaches df = Inr (Count (length (filter is_late (rows df))))"
proof -
  have cols: "''Actual Completion'' \<in> set (columns df)" "''Expected Completion'' \<in> set (columns df)"
    using assms by (simp_all add: project_columns_def)
  have dates: "list_all (\<lambda>r. is_date (r ''Actual Completion'') \<and> is_date (r ''Expected Completion''))
                 (rows df)"
    using assms by (simp add: project_columns_def)
  show ?thesis
    using cols
    by (simp add: sla_breaches_def col_def gt_series_dates [OF dates] count_true_map
        is_late_later [abs_def])
qed





subsection \<open>The pages\<close>

lemma dashboard_Inr:
  assumes "dashboard sums sales_data ops_data sect owners dates sales_goal ops_goal = Inr v"
  shows "v_sales_data v = sales_data" "v_ops_data v = ops_data"
    "v_ops_total v = ops_total ops_data"
    "v_ops_progress v = ops_progress (ops_total ops_data) ops_goal"
    "\<exists>filtered amount. v_filtered_sales v = filtered \<and> v_sales_total v = amount
       \<and> render sums sect filtered amount (sales_progress amount sales_goal) ops_data
            (ops_progress (ops_total ops_data) ops_goal) = Inr (v_page v)"
  using assms unfolding dashboard_def by (auto simp: bind_err_eq_Inr)

lemma render_operations:
  "render sums Operations_Workflow filtered amount sales_bar ops_data (ops_progress n goal) = Inr p
   \<longleftrightarrow>
     (\<exists>completed breaches. completed_projects ops_data = Inr completed
        \<and> sla_breaches ops_data = Inr breaches
        \<and> p = Operations_Page (length (rows ops_data)) completed breaches)"
  by (auto simp: render_def bind_err_eq_Inr ops_progress_bar)

lemma render_calendar:
  "render sums Operations_Calendar filtered amount sales_bar ops_data ops_bar = timeline ops_data"
  by (simp add: render_def)

text \<open>
  Claim C9. For every loaded pair of tables, two runs of the script that differ only in
  the chosen owners and the chosen dates end with the same project table, the one that
  was loaded, the same \<open>ops_total\<close>, the same operations goal progress and, on the
  operations pages, the same page: the count of active projects, the count of completed
  projects and the SLA metric are computed from the project table alone.
\<close>

theorem dashboard_ops_independent:
  assumes "dashboard sums sales_data ops_data sect owners dates sales_goal ops_goal = Inr v"
    and "dashboard sums sales_data ops_data sect owners' dates' sales_goal ops_goal = Inr v'"
  shows "v_ops_data v = ops_data \<and> v_ops_data v' = ops_data
         \<and> v_sales_data v' = v_sales_data v
         \<and> v_ops_total v' = v_ops_total v
         \<and> v_ops_progress v' = v_ops_progress v
         \<and> (sect \<noteq> Sales_Pipeline \<longrightarrow> v_page v' = v_page v)
         \<and> (sect = Operations_Workflow \<longrightarrow>
               (\<exists>completed breaches.
                  completed_projects ops_data = Inr completed
                  \<and> sla_breaches ops_data = Inr breaches
                  \<and> v_page v = Operations_Page (length (rows ops_data)) completed breaches))"
proof -
  note a = dashboard_Inr [OF assms(1)] and b = dashboard_Inr [OF assms(2)]
  from a(5) obtain f1 t1 where r1: "render sums sect f1 t1 (sales_progress t1 sales_goal) ops_data
      (ops_progress (ops_total ops_data) ops_goal) = Inr (v_page v)" by blast
  from b(5) obtain f2 t2 where r2: "render sums sect f2 t2 (sales_progress t2 sales_goal) ops_data
      (ops_progress (ops_total ops_data) ops_goal) = Inr (v_page v')" by blast
  have page: "v_page v' = v_page v" if "sect \<noteq> Sales_Pipeline"
  proof (cases sect)
    case Sales_Pipeline
    with that show ?thesis by simp
  next
    case Operations_Workflow
    with r1 r2 show ?thesis by (auto simp: render_operations)
  next
    case Operations_Calendar
    with r1 r2 show ?thesis by (simp add: render_calendar)
  qed
  have ops: "\<exists>completed breaches.
                  completed_projects ops_data = Inr completed
                  \<and> sla_breaches ops_data = Inr breaches
                  \<and> v_page v = Operations_Page (length (rows ops_data)) completed breaches"
    if "sect = Operations_Workflow"
    using r1 that by (simp add: render_operations)
  from a(1-4) b(1-4) page ops show ?thesis by simp
qed

lemma scenario_page:
  "render sums Operations_Workflow filtered amount sales_bar scenario_projects
     (ops_progress n goal)
   = Inr (Operations_Page 2 (Count 1) (Count 1))"
proof -
  have pc: "project_columns scenario_projects"
    by (simp add: project_columns_def scenario_projects_eq is_date_def)
  have "sla_breaches scenario_projects = Inr (Count 1)"
    by (simp add: sla_breaches_project_columns [OF pc])
       (simp add: scenario_projects_eq is_late_def later_def timedelta_days_def)
  moreover have "completed_projects scenario_projects = Inr (Count 1)"
    by (simp add: completed_projects_def col_def eq_str_def count_true_def scenario_projects_eq)
  moreover have "length (rows scenario_projects) = 2"
    by (simp add: scenario_projects_eq)
  ultimately show ?thesis by (simp add: render_def ops_progress_bar)
qed

lemma scenario_dashboard:
  "\<exists>v. dashboard sums scenario_leads scenario_projects Operations_Workflow owners [start, end]
          sales_goal ops_goal = Inr v
       \<and> rows (v_filtered_sales v) = filter (keeps owners start end) (rows scenario_leads)"
proof -
  have ne: "\<not> frame_empty scenario_leads" "rows scenario_leads \<noteq> []"
    by (simp_all add: frame_empty_def scenario_leads_eq)
  have cols: "col scenario_leads ''Salesperson'' = Inr (map (\<lambda>r. r ''Salesperson'') (rows scenario_leads))"
    "col scenario_leads ''Date Created'' = Inr (map (\<lambda>r. r ''Date Created'') (rows scenario_leads))"
    by (simp_all add: col_def scenario_leads_eq)
  have lc: "lead_columns scenario_leads"
    by (simp add: lead_columns_def scenario_leads_eq is_date_def is_number_def)
  have deals: "int64_deals scenario_leads"
    by (simp add: int64_deals_def scenario_leads_eq is_int64_def)
  define kept where "kept = scenario_leads\<lparr>rows := filter (keeps owners start end) (rows scenario_leads)\<rparr>"
  have "\<exists>t. sales_total sums kept = Inr t"
  proof (cases "rows kept = []")
    case True
    then show ?thesis by (simp add: sales_total_no_rows)
  next
    case False
    have "lead_columns kept" "int64_deals kept"
      unfolding kept_def
      using lc deals by (simp_all add: lead_columns_filter int64_deals_filter)
    with False show ?thesis by (simp add: sales_total_int64)
  qed
  then obtain t where st: "sales_total sums kept = Inr t" by blast
  show ?thesis
    unfolding dashboard_def
    by (simp add: ne cols filtered_sales_lead_table [OF lead_table_scenario] st [unfolded kept_def]
        scenario_page)
qed

theorem dashboard_ops_independent_witness:
  "\<exists>v v'. dashboard raising_sums scenario_leads scenario_projects Operations_Workflow
             [Str ''A''] [0, 5] 10000 1 = Inr v
        \<and> dashboard raising_sums scenario_leads scenario_projects Operations_Workflow
             [] [3, 4] 10000 1 = Inr v'
        \<and> length (rows (v_filtered_sales v)) = 1
        \<and> length (rows (v_filtered_sales v')) = 0
        \<and> v_ops_data v' = v_ops_data v
        \<and> v_ops_total v' = v_ops_total v
        \<and> v_ops_progress v' = v_ops_progress v
        \<and> v_page v' = v_page v
        \<and> v_page v = Operations_Page 2 (Count 1) (Count 1)"
proof -
  obtain v where v: "dashboard raising_sums scenario_leads scenario_projects Operations_Workflow
             [Str ''A''] [0, 5] 10000 1 = Inr v"
    and fv: "rows (v_filtered_sales v) = filter (keeps [Str ''A''] 0 5) (rows scenario_leads)"
    using scenario_dashboard [of raising_sums "[Str ''A'']" 0 5 10000 1] by blast
  obtain v' where v': "dashboard raising_sums scenario_leads scenario_projects Operations_Workflow
             [] [3, 4] 10000 1 = Inr v'"
    and fv': "rows (v_filtered_sales v') = filter (keeps [] 3 4) (rows scenario_leads)"
    using scenario_dashboard [of raising_sums "[]" 3 4 10000 1] by blast
  note ind = dashboard_ops_independent [OF v v']
  have l1: "length (rows (v_filtered_sales v)) = 1"
    unfolding fv
    by (simp add: scenario_leads_eq keeps_def created_within_def to_datetime_def timedelta_days_def)
  have l2: "length (rows (v_filtered_sales v')) = 0"
    unfolding fv' by (simp add: keeps_def)
  have pg: "v_page v = Operations_Page 2 (Count 1) (Count 1)"
    using dashboard_Inr(5) [OF v] by (simp add: scenario_page)
  from ind have same: "v_ops_data v' = v_ops_data v" "v_ops_total v' = v_ops_total v"
    "v_ops_progress v' = v_ops_progress v" "v_page v' = v_page v"
    by simp_all
  from v v' l1 l2 same pg show ?thesis
    by (intro exI [of _ v] exI [of _ v'] conjI) assumption+
qed

subsection \<open>Uploaded workbooks\<close>

lemma read_files_sheets:
  "read_files fs sales_frames ops_frames
   = (sales_frames @ sheets ''Sales'' fs, ops_frames @ sheets ''Operations'' fs)"
  by (induction fs arbitrary: sales_frames ops_frames)
     (simp_all add: sheets_def append_sheet_def split: option.splits)

lemma load_data_uploaded:
  "uploaded_files \<noteq> [] \<Longrightarrow>
   load_data False uploaded_files e
   = Inr (loaded (sheets ''Sales'' uploaded_files), loaded (sheets ''Operations'' uploaded_files))"
  by (simp add: load_data_def read_files_sheets loaded_def)

lemma rows_loaded:
  "rows (loaded frames)
   = concat (map (\<lambda>df. map (reindex (na_value frames) (columns df)) (rows df)) frames)"
  by (simp add: loaded_def concat_frames_def DataFrame_def)




lemma column_reindexed:
  assumes "\<forall>df \<in> set frames. c \<in> set (columns df)"
  shows "map (\<lambda>r. r c) (concat (map (\<lambda>df. map (reindex fill (columns df)) (rows df)) frames))
         = concat (map (\<lambda>df. map (\<lambda>r. r c) (rows df)) frames)"
  using assms by (induction frames) (simp_all add: reindex_def)

lemma column_loaded:
  assumes "\<forall>df \<in> set frames. c \<in> set (columns df)"
  shows "map (\<lambda>r. r c) (rows (loaded frames)) = concat (map (\<lambda>df. map (\<lambda>r. r c) (rows df)) frames)"
  unfolding rows_loaded by (rule column_reindexed [OF assms])

lemma lead_ids_loaded:
  assumes "\<forall>df \<in> set frames. ''Lead ID'' \<in> set (columns df)"
  shows "lead_ids (loaded frames) = concat (map lead_ids frames)"
  using column_loaded [OF assms] by (simp add: lead_ids_def [abs_def])

lemma lead_ids_scenario: "lead_ids scenario_leads = [Number 1, Number 2]"
  by (simp add: lead_ids_def scenario_leads_eq)

lemma sheets_twice:
  "sheets ''Sales'' [[(''Sales'', scenario_leads)], [(''Sales'', scenario_leads)]]
   = [scenario_leads, scenario_leads]"
  by (simp add: sheets_def)






subsection \<open>The demonstration data\<close>

lemma is_int64_Str [simp]: "\<not> is_int64 (Str s)"
  by (simp add: is_int64_def)

lemma is_int64_shift [simp]: "\<not> is_int64 (shift n d)"
  by (cases d) (simp_all add: shift_def is_int64_def)

lemma assign_indexed:
  assumes "\<And>j. \<not> is_int64 (v j)" and "c \<notin> ic"
  shows "assign \<lparr>columns = cs, rows = map f [0..<n], int64_columns = ic\<rparr> c (map v [0..<n])
   = \<lparr>columns = (if c \<in> set cs then cs else cs @ [c]),
      rows = map (\<lambda>j. (f j)(c := v j)) [0..<n],
      int64_columns = ic\<rparr>"
proof -
  have "\<not> (map v [0..<n] \<noteq> [] \<and> list_all is_int64 (map v [0..<n]))"
    using assms(1) by (cases n) (simp_all add: list_all_iff)
  with assms(2) show ?thesis
    by (auto simp: assign_def zip_map_same)
qed

lemma col_indexed:
  "c \<in> set cs \<Longrightarrow>
   col \<lparr>columns = cs, rows = map f [0..<n], int64_columns = ic\<rparr> c
   = Inr (map (\<lambda>j. f j c) [0..<n])"
  by (simp add: col_def)

lemma add_timedelta_date: "is_date d \<Longrightarrow> add_timedelta d n = Inr (shift n d)"
  by (cases d) (simp_all add: add_timedelta_def shift_def is_date_def)

lemma is_date_shift [simp]: "is_date (shift n d)"
  by (cases d) (simp_all add: shift_def is_date_def)

lemma derive_ops:
  assumes cs: "''Date Closed'' \<in> set cs" "''Project Status'' \<notin> set cs"
       "''Kickoff Date'' \<notin> set cs" "''Expected Completion'' \<notin> set cs" "''Actual Completion'' \<notin> set cs"
    and ic: "''Project Status'' \<notin> ic" "''Kickoff Date'' \<notin> ic" "''Expected Completion'' \<notin> ic"
       "''Actual Completion'' \<notin> ic"
    and dates: "list_all (\<lambda>r. is_date (r ''Date Closed'')) ws"
  shows
   "(let ops1 = assign \<lparr>columns = cs, rows = ws, int64_columns = ic\<rparr> ''Project Status''
                  (map (\<lambda>j. Str (choice [''Planning'', ''In Progress'', ''Stalled'', ''Completed'']
                                    (project_draw e j)))
                     [0 ..< length ws])
     in
     bind_err (col ops1 ''Date Closed'') (\<lambda>closed.
     bind_err (mapM_err (\<lambda>d. add_timedelta d 3) closed) (\<lambda>kickoff.
     let ops2 = assign ops1 ''Kickoff Date'' kickoff in
     bind_err (col ops2 ''Kickoff Date'') (\<lambda>kick.
     bind_err (mapM_err (\<lambda>d. add_timedelta d 30) kick) (\<lambda>expected.
     let ops3 = assign ops2 ''Expected Completion'' expected in
     bind_err (col ops3 ''Kickoff Date'') (\<lambda>kick'.
     bind_err (mapM_err (\<lambda>(d, j). add_timedelta d (randint 25 40 (actual_draw e j)))
                 (zip kick' [0 ..< length kick'])) (\<lambda>actual.
       Inr (assign ops3 ''Actual Completion'' actual))))))))
    = Inr \<lparr>columns = cs @ [''Project Status'', ''Kickoff Date'', ''Expected Completion'',
                           ''Actual Completion''],
           rows = map (\<lambda>j. project_row e j (ws ! j)) [0..<length ws],
           int64_columns = ic\<rparr>"
proof -
  define n where "n = length ws"
  have ws: "ws = map (\<lambda>j. ws ! j) [0..<n]"
    by (simp add: n_def map_nth)
  have d: "is_date ((ws ! j) ''Date Closed'')" if "j < n" for j
    using dates that by (simp add: list_all_length n_def)
  define ps where "ps = (\<lambda>j. Str (choice [''Planning'', ''In Progress'', ''Stalled'', ''Completed'']
                                    (project_draw e j)))"
  have m1: "mapM_err (\<lambda>d. add_timedelta d 3) (map (\<lambda>j. (ws ! j) ''Date Closed'') [0..<n])
            = Inr (map (shift 3) (map (\<lambda>j. (ws ! j) ''Date Closed'') [0..<n]))"
    by (intro mapM_err_total) (auto simp: add_timedelta_date d)
  have m2: "mapM_err (\<lambda>d. add_timedelta d 30) (map (\<lambda>j. shift 3 ((ws ! j) ''Date Closed'')) [0..<n])
            = Inr (map (shift 30) (map (\<lambda>j. shift 3 ((ws ! j) ''Date Closed'')) [0..<n]))"
    by (intro mapM_err_total) (auto simp: add_timedelta_date)
  have m3: "mapM_err (\<lambda>(d, j). add_timedelta d (randint 25 40 (actual_draw e j)))
              (map (\<lambda>j. (shift 3 ((ws ! j) ''Date Closed''), j)) [0..<n])
            = Inr (map (\<lambda>(d, j). shift (randint 25 40 (actual_draw e j)) d)
                (map (\<lambda>j. (shift 3 ((ws ! j) ''Date Closed''), j)) [0..<n]))"
    by (intro mapM_err_total) (auto simp: add_timedelta_date)
  have z: "zip (map f [0..<n]) [0..<n] = map (\<lambda>j. (f j, j)) [0..<n]" for f :: "nat \<Rightarrow> cell"
    using zip_map_same [of f "[0..<n]" "\<lambda>j. j"] by simp
  have "(let ops1 = assign \<lparr>columns = cs, rows = map (\<lambda>j. ws ! j) [0..<n], int64_columns = ic\<rparr>
                    ''Project Status''
                  (map ps [0 ..< n])
     in
     bind_err (col ops1 ''Date Closed'') (\<lambda>closed.
     bind_err (mapM_err (\<lambda>d. add_timedelta d 3) closed) (\<lambda>kickoff.
     let ops2 = assign ops1 ''Kickoff Date'' kickoff in
     bind_err (col ops2 ''Kickoff Date'') (\<lambda>kick.
     bind_err (mapM_err (\<lambda>d. add_timedelta d 30) kick) (\<lambda>expected.
     let ops3 = assign ops2 ''Expected Completion'' expected in
     bind_err (col ops3 ''Kickoff Date'') (\<lambda>kick'.
     bind_err (mapM_err (\<lambda>(d, j). add_timedelta d (randint 25 40 (actual_draw e j)))
                 (zip kick' [0 ..< length kick'])) (\<lambda>actual.
       Inr (assign ops3 ''Actual Completion'' actual))))))))
    = Inr \<lparr>columns = cs @ [''Project Status'', ''Kickoff Date'', ''Expected Completion'',
                           ''Actual Completion''],
           rows = map (\<lambda>j. project_row e j (ws ! j)) [0..<n],
           int64_columns = ic\<rparr>"
    using cs ic
    by (simp add: assign_indexed col_indexed m1 m2 m3 z comp_def Let_def project_row_def ps_def
        del: upt_Suc)
  then show ?thesis
    unfolding ps_def n_def [symmetric] using ws by simp
qed

lemma infer_datetime_nth:
  "i < 20 \<Longrightarrow> infer_datetime (map (date_closed e) [0..<20]) ! i = closed_cell e i"
  by (auto simp add: infer_datetime_def closed_cell_def all_none_def list_all_iff date_closed_def
       simp del: upt_rec_numeral)

lemma infer_datetime_not_int64: "x \<in> set (infer_datetime xs) \<Longrightarrow> \<not> is_int64 x"
  by (auto simp: infer_datetime_def is_int64_def split: if_splits option.splits)

lemma randint_bounds: "lo < hi \<Longrightarrow> lo \<le> randint lo hi r \<and> randint lo hi r < hi"
proof -
  assume "lo < hi"
  then have "0 < nat (hi - lo)" by simp
  then have "r mod nat (hi - lo) < nat (hi - lo)" by (rule mod_less_divisor)
  then show ?thesis by (simp add: randint_def)
qed

lemma int64_synthetic_sales:
  "set (map fst (filter (\<lambda>(name, xs). xs \<noteq> [] \<and> list_all is_int64 xs)
       [(''Lead ID'', map (\<lambda>i. Number (int i + 1)) [0..<20]),
        (''Lead Source'', map (\<lambda>i. Str (a i)) [0..<20]),
        (''Status'', map (\<lambda>i. Str (b i)) [0..<20]),
        (''Deal Value ($)'', map (\<lambda>i. Number (randint 5000 50000 (value_draw e i))) [0..<20]),
        (''Salesperson'', map (\<lambda>i. Str (c i)) [0..<20]),
        (''Date Created'', map (\<lambda>i. Timestamp (d i)) [0..<20]),
        (''Date Closed'', infer_datetime (map (date_closed e) [0..<20]))]))
   = {''Lead ID'', ''Deal Value ($)''}"
proof -
  have ids: "list_all is_int64 (map (\<lambda>i. Number (int i + 1)) [0..<20])"
    by (simp add: list_all_iff is_int64_def del: upt_rec_numeral)
  have texts: "\<not> list_all is_int64 (map (\<lambda>i. Str (f i)) [0..<20])" for f
    by (simp add: list_all_iff del: upt_rec_numeral) (rule exI [of _ 0], simp)
  have dates: "\<not> list_all is_int64 (map (\<lambda>i. Timestamp (f i)) [0..<20])" for f
    by (simp add: list_all_iff is_int64_def del: upt_rec_numeral) (rule exI [of _ 0], simp)
  have "is_int64 (Number (randint 5000 50000 r))" for r
    using randint_bounds [of 5000 50000 r] by (simp add: is_int64_def)
  then have deals: "list_all is_int64 (map (\<lambda>i. Number (randint 5000 50000 (value_draw e i))) [0..<20])"
    by (simp add: list_all_iff del: upt_rec_numeral)
  have "infer_datetime (map (date_closed e) [0..<20]) \<noteq> []"
    by (simp add: infer_datetime_def del: upt_rec_numeral)
  then obtain x where "x \<in> set (infer_datetime (map (date_closed e) [0..<20]))"
    by (cases "infer_datetime (map (date_closed e) [0..<20])") auto
  then have closed: "\<not> list_all is_int64 (infer_datetime (map (date_closed e) [0..<20]))"
    using infer_datetime_not_int64 by (auto simp: list_all_iff)
  show ?thesis
    by (simp add: ids texts dates deals closed del: upt_rec_numeral)
qed

lemma synthetic_sales_eq:
  "synthetic_sales e
   = \<lparr>columns = sales_columns, rows = map (lead_row e) [0..<20],
      int64_columns = {''Lead ID'', ''Deal Value ($)''}\<rparr>"
proof -
  have "map (\<lambda>i c. case map_of
       [(''Lead ID'', map (\<lambda>i. Number (int i + 1)) [0..<20]),
        (''Lead Source'',
           map (\<lambda>i. Str (choice [''LinkedIn'', ''Website'', ''Referral'', ''Cold Call'']
                             (source_draw e i))) [0..<20]),
        (''Status'',
           map (\<lambda>i. Str (choice [''New'', ''Contacted'', ''Qualified'', ''Proposal Sent'',
                                  ''Negotiation'', ''Closed-Won'', ''Closed-Lost'']
                             (status_draw e i))) [0..<20]),
        (''Deal Value ($)'', map (\<lambda>i. Number (randint 5000 50000 (value_draw e i))) [0..<20]),
        (''Salesperson'',
           map (\<lambda>i. Str (choice [''Alice'', ''Bob'', ''Carol''] (owner_draw e i))) [0..<20]),
        (''Date Created'',
           map (\<lambda>i. Timestamp (today e - timedelta_days 60 + timedelta_days (int i))) [0..<20]),
        (''Date Closed'', infer_datetime (map (date_closed e) [0..<20]))] c
       of Some xs \<Rightarrow> xs ! i | None \<Rightarrow> NaN) [0..<20]
     = map (lead_row e) [0..<20]"
    by (rule map_cong [OF refl])
       (auto simp add: lead_row_def fun_eq_iff infer_datetime_nth simp del: upt_rec_numeral)
  then show ?thesis
    unfolding synthetic_sales_def frame_of_dict_def int64_synthetic_sales
    by (simp add: sales_columns_def del: upt_rec_numeral)
qed

lemma rows_synthetic_sales: "rows (synthetic_sales e) = map (lead_row e) [0..<20]"
  by (simp add: synthetic_sales_eq)

lemma closed_cell_cases:
  "closed_cell e i = PyNone \<and> all_none e \<or> is_date (closed_cell e i) \<and> \<not> all_none e"
  by (simp add: closed_cell_def all_none_def is_date_def split: option.splits del: upt_rec_numeral)

lemma won_leads_closed:
  "r \<in> set (won_leads e) \<Longrightarrow> \<exists>i<20. r = lead_row e i \<and> r ''Date Closed'' = closed_cell e i"
  by (auto simp add: won_leads_def synthetic_sales_eq lead_row_def simp del: upt_rec_numeral)

lemma synthetic_select:
  "select (synthetic_sales e) (eq_str (map (\<lambda>r. r ''Status'') (rows (synthetic_sales e))) ''Closed-Won'')
   = \<lparr>columns = sales_columns, rows = won_leads e,
      int64_columns = {''Lead ID'', ''Deal Value ($)''}\<rparr>"
proof -
  have "select (synthetic_sales e)
          (eq_str (map (\<lambda>r. r ''Status'') (rows (synthetic_sales e))) ''Closed-Won'')
        = (synthetic_sales e)\<lparr>rows := won_leads e\<rparr>"
    by (simp add: eq_str_def comp_def select_rows is_won_def [abs_def] won_leads_def)
  also have "\<dots> = \<lparr>columns = sales_columns, rows = won_leads e,
                      int64_columns = {''Lead ID'', ''Deal Value ($)''}\<rparr>"
    by (simp add: synthetic_sales_eq)
  finally show ?thesis .
qed

lemma synthetic_ops_ok:
  assumes "\<not> all_none e \<or> won_leads e = []"
  shows "synthetic_ops e (synthetic_sales e) = Inr (synthetic_projects e)"
proof -
  have dates: "list_all (\<lambda>r. is_date (r ''Date Closed'')) (won_leads e)"
  proof (cases "won_leads e = []")
    case True
    then show ?thesis by simp
  next
    case False
    with assms have "\<not> all_none e" by simp
    then show ?thesis
      using closed_cell_cases [of e]
      by (auto simp: list_all_iff dest!: won_leads_closed)
  qed
  have st: "col (synthetic_sales e) ''Status'' = Inr (map (\<lambda>r. r ''Status'') (rows (synthetic_sales e)))"
    by (simp add: col_def synthetic_sales_eq sales_columns_def del: upt_rec_numeral)
  have "synthetic_ops e (synthetic_sales e)
        = Inr \<lparr>columns = sales_columns @ [''Project Status'', ''Kickoff Date'', ''Expected Completion'',
                           ''Actual Completion''],
           rows = map (\<lambda>j. project_row e j (won_leads e ! j)) [0..<length (won_leads e)],
           int64_columns = {''Lead ID'', ''Deal Value ($)''}\<rparr>"
    unfolding synthetic_ops_def st bind_err_Inr synthetic_select
    by (subst Let_def, simp only: frame.simps, rule derive_ops)
       (simp_all add: sales_columns_def dates)
  then show ?thesis by (simp add: synthetic_projects_def project_columns_list_def)
qed

lemma synthetic_ops_raises:
  assumes "all_none e" and "won_leads e \<noteq> []"
  shows "synthetic_ops e (synthetic_sales e) = Inl TypeError"
proof -
  from assms(2) obtain r rs where ws: "won_leads e = r # rs"
    by (cases "won_leads e") auto
  then have "r \<in> set (won_leads e)" by simp
  then have none: "r ''Date Closed'' = PyNone"
    using assms(1) closed_cell_cases [of e] by (auto dest!: won_leads_closed simp: is_date_def)
  have st: "col (synthetic_sales e) ''Status'' = Inr (map (\<lambda>r. r ''Status'') (rows (synthetic_sales e)))"
    by (simp add: col_def synthetic_sales_eq sales_columns_def del: upt_rec_numeral)
  show ?thesis
    unfolding synthetic_ops_def st bind_err_Inr synthetic_select
    by (simp add: Let_def ws assign_def col_def sales_columns_def upt_conv_Cons none
        add_timedelta_def del: upt_Suc)
qed

lemma load_data_synthetic:
  "load_data False [] e =
     (if all_none e \<and> won_leads e \<noteq> [] then Inl TypeError
      else Inr (synthetic_sales e, synthetic_projects e))"
  by (auto simp: load_data_def Let_def synthetic_ops_ok synthetic_ops_raises)

lemma load_data_returns_iff:
  "(\<exists>sales ops. load_data False [] e = Inr (sales, ops)) \<longleftrightarrow> \<not> (all_none e \<and> won_leads e \<noteq> [])"
  by (simp add: load_data_synthetic)

lemma synthetic_loaded:
  assumes "load_data False [] e = Inr (sales, ops)"
  shows "sales = synthetic_sales e" "ops = synthetic_projects e"
    "\<not> all_none e \<or> won_leads e = []"
  using assms by (simp_all add: load_data_synthetic split: if_splits)

lemma all_none_crash: "all_none crash_env"
  by (simp add: all_none_def crash_env_def upt_20)

lemma won_leads_crash: "won_leads crash_env \<noteq> []"
  by (simp add: won_leads_def synthetic_sales_eq is_won_def lead_row_def crash_env_def choice_def
      upt_20)

text \<open>
  Claim C6 at the draws of \<open>crash_env\<close>: no upload, no external source, every lead won
  and no lead given a close date. The column of close dates then holds \<^verbatim>\<open>None\<close>, line 55
  adds a \<^verbatim>\<open>timedelta\<close> to it, and \<open>load_data\<close> raises \<^verbatim>\<open>TypeError\<close> where the claim
  promises twenty leads and their projects. These are the only draws that fail
  (\<open>load_data_returns_iff\<close>); for all others \<open>load_data_synthetic_derives\<close> below
  gives what the claim says.
\<close>

theorem load_data_raises_without_close_dates:
  "load_data False [] crash_env = Inl TypeError"
  by (simp add: load_data_synthetic all_none_crash won_leads_crash)

lemma project_row_cells:
  "project_row e j r ''Lead ID'' = r ''Lead ID''"
  "project_row e j r ''Status'' = r ''Status''"
  "project_row e j r ''Date Closed'' = r ''Date Closed''"
  "project_row e j r ''Kickoff Date'' = shift 3 (r ''Date Closed'')"
  "project_row e j r ''Expected Completion'' = shift 30 (project_row e j r ''Kickoff Date'')"
  "project_row e j r ''Actual Completion''
     = shift (randint 25 40 (actual_draw e j)) (project_row e j r ''Kickoff Date'')"
  by (simp_all add: project_row_def)

lemma randint_range: "lo < hi \<Longrightarrow> lo \<le> randint lo hi r \<and> randint lo hi r < hi"
proof -
  assume less: "lo < hi"
  then have "r mod nat (hi - lo) < nat (hi - lo)" by simp
  then have "int (r mod nat (hi - lo)) < int (nat (hi - lo))" by (simp only: of_nat_less_iff)
  with less have "int (r mod nat (hi - lo)) < hi - lo" by simp
  then show ?thesis by (simp add: randint_def)
qed

lemma shift_NaT [simp]: "shift n NaT = NaT"
  by (simp add: shift_def)

lemma not_late_NaT: "r ''Actual Completion'' = NaT \<Longrightarrow> \<not> is_late r"
  by (simp add: is_late_def later_def)

lemma load_data_synthetic_derives:
  assumes "load_data False [] e = Inr (sales, ops)"
  shows "length (rows sales) = 20"
    and "length (rows ops) = length (filter is_won (rows sales))"
    and "\<forall>j<length (rows ops).
           (rows ops ! j) ''Lead ID'' = (filter is_won (rows sales) ! j) ''Lead ID''
           \<and> (rows ops ! j) ''Kickoff Date'' = shift 3 ((rows ops ! j) ''Date Closed'')
           \<and> (rows ops ! j) ''Expected Completion'' = shift 30 ((rows ops ! j) ''Kickoff Date'')
           \<and> (\<exists>n. 25 \<le> n \<and> n \<le> 39
                  \<and> (rows ops ! j) ''Actual Completion'' = shift n ((rows ops ! j) ''Kickoff Date''))"
proof -
  note l = synthetic_loaded [OF assms]
  show "length (rows sales) = 20"
    by (simp add: l(1) rows_synthetic_sales del: upt_rec_numeral)
  show "length (rows ops) = length (filter is_won (rows sales))"
    by (simp add: l synthetic_projects_def won_leads_def)
  have r: "25 \<le> randint 25 40 (actual_draw e j) \<and> randint 25 40 (actual_draw e j) \<le> 39" for j
    using randint_range [of 25 40 "actual_draw e j"] by simp
  show "\<forall>j<length (rows ops).
           (rows ops ! j) ''Lead ID'' = (filter is_won (rows sales) ! j) ''Lead ID''
           \<and> (rows ops ! j) ''Kickoff Date'' = shift 3 ((rows ops ! j) ''Date Closed'')
           \<and> (rows ops ! j) ''Expected Completion'' = shift 30 ((rows ops ! j) ''Kickoff Date'')
           \<and> (\<exists>n. 25 \<le> n \<and> n \<le> 39
                  \<and> (rows ops ! j) ''Actual Completion'' = shift n ((rows ops ! j) ''Kickoff Date''))"
    using r by (auto simp: l synthetic_projects_def won_leads_def project_row_cells)
qed

lemma all_none_example: "\<not> all_none example_env"
  by (simp add: all_none_def example_env_def upt_20)

lemma won_leads_example: "won_leads example_env = [lead_row example_env 0, lead_row example_env 1]"
  by (simp add: won_leads_def synthetic_sales_eq is_won_def lead_row_def example_env_def choice_def
      upt_20)

lemma load_data_example:
  "load_data False [] example_env = Inr (synthetic_sales example_env, synthetic_projects example_env)"
  by (simp add: load_data_synthetic all_none_example)

lemma rows_projects_example:
  "rows (synthetic_projects example_env)
   = [project_row example_env 0 (lead_row example_env 0),
      project_row example_env (Suc 0) (lead_row example_env (Suc 0))]"
  by (simp add: synthetic_projects_def won_leads_example upt_conv_Cons)

lemma closed_example:
  "lead_row example_env 0 ''Date Closed'' = NaT"
  "lead_row example_env (Suc 0) ''Date Closed'' = Timestamp (timedelta_days 99)"
  by (simp_all add: lead_row_def closed_cell_def all_none_example date_closed_def)
     (simp_all add: example_env_def randint_def timedelta_days_def)

subsection \<open>Lead identifiers\<close>

lemma lead_ids_synthetic:
  "lead_ids (synthetic_sales e) = map (\<lambda>i. Number (int i)) [1..<21]"
proof -
  have "[1..<21] = map Suc [0..<20]"
    by (simp add: map_Suc_upt del: upt_rec_numeral)
  then show ?thesis
    by (simp add: lead_ids_def synthetic_sales_eq lead_row_def comp_def add.commute
        del: upt_rec_numeral)
qed

lemma distinct_lead_ids_synthetic: "distinct (lead_ids (synthetic_sales e))"
  unfolding lead_ids_synthetic by (simp add: distinct_map inj_on_def del: upt_rec_numeral)

text \<open>
  Claim C5, as amended. The leads of the demonstration data carry the identifiers 1 to
  20, each once. The leads read from uploaded workbooks carry the identifiers of the
  sheets \<^verbatim>\<open>Sales\<close>, in order: \<open>load_data\<close> removes no repetition, so an identifier that two
  sheets share is there twice.
\<close>

theorem lead_ids_of_load_data:
  "(load_data False [] e = Inr (sales, ops) \<longrightarrow>
      lead_ids sales = map (\<lambda>i. Number (int i)) [1..<21] \<and> distinct (lead_ids sales))
   \<and> (uploaded_files \<noteq> []
        \<and> (\<forall>df \<in> set (sheets ''Sales'' uploaded_files). ''Lead ID'' \<in> set (columns df)) \<longrightarrow>
        (\<exists>leads projects.
           load_data False uploaded_files e = Inr (leads, projects)
           \<and> lead_ids leads = concat (map lead_ids (sheets ''Sales'' uploaded_files))))"
proof -
  have a: "lead_ids sales = map (\<lambda>i. Number (int i)) [1..<21] \<and> distinct (lead_ids sales)"
    if "load_data False [] e = Inr (sales, ops)"
    using synthetic_loaded(1) [OF that] lead_ids_synthetic [of e] distinct_lead_ids_synthetic [of e]
    by simp
  have b: "\<exists>leads projects.
           load_data False uploaded_files e = Inr (leads, projects)
           \<and> lead_ids leads = concat (map lead_ids (sheets ''Sales'' uploaded_files))"
    if "uploaded_files \<noteq> []"
      "\<forall>df \<in> set (sheets ''Sales'' uploaded_files). ''Lead ID'' \<in> set (columns df)"
    using load_data_uploaded [OF that(1), of e] lead_ids_loaded [OF that(2)] by blast
  from a b show ?thesis by blast
qed

theorem lead_ids_of_load_data_witness:
  "load_data False [] example_env = Inr (synthetic_sales example_env, synthetic_projects example_env)
   \<and> lead_ids (synthetic_sales example_env)
       = [Number 1, Number 2, Number 3, Number 4, Number 5, Number 6, Number 7, Number 8,
          Number 9, Number 10, Number 11, Number 12, Number 13, Number 14, Number 15,
          Number 16, Number 17, Number 18, Number 19, Number 20]
   \<and> (\<exists>leads projects.
         load_data False [[(''Sales'', scenario_leads)], [(''Sales'', scenario_leads)]]
           example_env = Inr (leads, projects)
         \<and> lead_ids leads = [Number 1, Number 2, Number 1, Number 2])"
proof -
  note t = lead_ids_of_load_data [of example_env "synthetic_sales example_env"
      "synthetic_projects example_env"
      "[[(''Sales'', scenario_leads)], [(''Sales'', scenario_leads)]]"]
  have "lead_ids (synthetic_sales example_env) = map (\<lambda>i. Number (int i)) [1..<21]"
    using t load_data_example by blast
  then have ids: "lead_ids (synthetic_sales example_env)
       = [Number 1, Number 2, Number 3, Number 4, Number 5, Number 6, Number 7, Number 8,
          Number 9, Number 10, Number 11, Number 12, Number 13, Number 14, Number 15,
          Number 16, Number 17, Number 18, Number 19, Number 20]"
    unfolding upt_1_21 by simp
  have "''Lead ID'' \<in> set (columns scenario_leads)"
    by (simp add: scenario_leads_eq)
  then have "\<exists>leads projects.
         load_data False [[(''Sales'', scenario_leads)], [(''Sales'', scenario_leads)]]
           example_env = Inr (leads, projects)
         \<and> lead_ids leads
            = concat (map lead_ids
                (sheets ''Sales'' [[(''Sales'', scenario_leads)], [(''Sales'', scenario_leads)]]))"
    using t by (simp add: sheets_twice)
  then have "\<exists>leads projects.
         load_data False [[(''Sales'', scenario_leads)], [(''Sales'', scenario_leads)]]
           example_env = Inr (leads, projects)
         \<and> lead_ids leads = [Number 1, Number 2, Number 1, Number 2]"
    by (simp add: sheets_twice lead_ids_scenario)
  with load_data_example ids show ?thesis by blast
qed

theorem lead_ids_repeated_counterexample:
  "load_data False [[(''Sales'', scenario_leads)], [(''Sales'', scenario_leads)]] example_env
     = Inr (loaded [scenario_leads, scenario_leads], DataFrame)
   \<and> lead_ids (loaded [scenario_leads, scenario_leads])
       = [Number 1, Number 2, Number 1, Number 2]
   \<and> \<not> distinct (lead_ids (loaded [scenario_leads, scenario_leads]))"
proof -
  have ids: "lead_ids (loaded [scenario_leads, scenario_leads])
             = [Number 1, Number 2, Number 1, Number 2]"
    by (simp add: lead_ids_loaded scenario_leads_eq) (simp add: lead_ids_def)
  have "load_data False [[(''Sales'', scenario_leads)], [(''Sales'', scenario_leads)]] example_env
     = Inr (loaded [scenario_leads, scenario_leads], DataFrame)"
    by (simp add: load_data_uploaded sheets_twice) (simp add: sheets_def loaded_def)
  with ids show ?thesis by simp
qed

subsection \<open>Won leads without a close date\<close>

lemma closed_missing_iff:
  "closed_cell e i \<in> {NaT, PyNone} \<longleftrightarrow> all_none e \<or> \<not> closed_coin e i"
  by (simp add: closed_cell_def date_closed_def)

lemma all_none_coin: "all_none e \<Longrightarrow> i < 20 \<Longrightarrow> \<not> closed_coin e i"
  by (simp add: all_none_def list_all_iff)

lemma project_columns_synthetic: "project_columns (synthetic_projects e)"
  by (simp add: project_columns_def synthetic_projects_def sales_columns_def
      project_columns_list_def list_all_iff project_row_cells del: upt_rec_numeral)

lemma won_lead_date:
  assumes "\<not> all_none e \<or> won_leads e = []" "j < length (won_leads e)"
  shows "(won_leads e ! j) ''Date Closed'' = NaT
         \<or> (\<exists>t. (won_leads e ! j) ''Date Closed'' = Timestamp t)"
proof -
  from assms have na: "\<not> all_none e" by auto
  from assms(2) have "won_leads e ! j \<in> set (won_leads e)" by simp
  then obtain i where "(won_leads e ! j) ''Date Closed'' = closed_cell e i"
    by (auto dest!: won_leads_closed)
  then show ?thesis
    using na by (simp add: closed_cell_def split: option.splits)
qed

text \<open>
  What holds whenever \<open>load_data\<close> returns the demonstration data: a lead has no close
  date exactly when its own draw said so, whatever its status; there is one project per
  won lead, in order, with the lead's identifier and close date; a project whose close
  date is missing has no kickoff date, no expected and no actual completion date and is
  not counted by the SLA metric, which counts exactly the late projects; and \<open>ops_total\<close>
  counts every project, that one included.
\<close>

lemma projects_of_returned_data:
  assumes "load_data False [] e = Inr (sales, ops)"
  shows "(\<forall>i<20. ((rows sales ! i) ''Date Closed'' \<in> {NaT, PyNone}) = (\<not> closed_coin e i))
         \<and> length (rows ops) = length (filter is_won (rows sales))
         \<and> ops_total ops = length (rows ops)
         \<and> sla_breaches ops = Inr (Count (length (filter is_late (rows ops))))
         \<and> (\<forall>j<length (rows ops).
               (rows ops ! j) ''Lead ID'' = (filter is_won (rows sales) ! j) ''Lead ID''
               \<and> (rows ops ! j) ''Date Closed'' = (filter is_won (rows sales) ! j) ''Date Closed''
               \<and> ((rows ops ! j) ''Date Closed'' = NaT
                    \<or> (\<exists>t. (rows ops ! j) ''Date Closed'' = Timestamp t))
               \<and> ((rows ops ! j) ''Date Closed'' = NaT \<longrightarrow>
                     (rows ops ! j) ''Kickoff Date'' = NaT
                     \<and> (rows ops ! j) ''Expected Completion'' = NaT
                     \<and> (rows ops ! j) ''Actual Completion'' = NaT
                     \<and> \<not> is_late (rows ops ! j)))"
proof -
  note l = synthetic_loaded [OF assms]
  have won: "filter is_won (rows sales) = won_leads e"
    by (simp add: l(1) won_leads_def)
  have len: "length (rows ops) = length (won_leads e)"
    by (simp add: l(2) synthetic_projects_def)
  have nth: "rows ops ! j = project_row e j (won_leads e ! j)" if "j < length (won_leads e)" for j
    using that by (simp add: l(2) synthetic_projects_def)
  have coin: "((rows sales ! i) ''Date Closed'' \<in> {NaT, PyNone}) = (\<not> closed_coin e i)"
    if "i < 20" for i
  proof -
    have "(rows sales ! i) ''Date Closed'' = closed_cell e i"
      using that by (simp add: l(1) rows_synthetic_sales lead_row_def del: upt_rec_numeral)
    then show ?thesis
      using all_none_coin [OF _ that, of e]
      by (cases "all_none e") (simp_all add: closed_cell_def date_closed_def)
  qed
  have total: "ops_total ops = length (rows ops)"
    by (simp add: ops_total_def frame_empty_def l(2) synthetic_projects_def sales_columns_def)
  have sla: "sla_breaches ops = Inr (Count (length (filter is_late (rows ops))))"
    unfolding l(2) by (rule sla_breaches_project_columns [OF project_columns_synthetic])
  have each: "(rows ops ! j) ''Lead ID'' = (filter is_won (rows sales) ! j) ''Lead ID''
               \<and> (rows ops ! j) ''Date Closed'' = (filter is_won (rows sales) ! j) ''Date Closed''
               \<and> ((rows ops ! j) ''Date Closed'' = NaT
                    \<or> (\<exists>t. (rows ops ! j) ''Date Closed'' = Timestamp t))
               \<and> ((rows ops ! j) ''Date Closed'' = NaT \<longrightarrow>
                     (rows ops ! j) ''Kickoff Date'' = NaT
                     \<and> (rows ops ! j) ''Expected Completion'' = NaT
                     \<and> (rows ops ! j) ''Actual Completion'' = NaT
                     \<and> \<not> is_late (rows ops ! j))"
    if "j < length (rows ops)" for j
  proof -
    from that len have j: "j < length (won_leads e)" by simp
    show ?thesis
      using won_lead_date [OF l(3) j]
      by (auto simp: nth [OF j] won project_row_cells not_late_NaT)
  qed
  have len': "length (rows ops) = length (filter is_won (rows sales))"
    by (simp add: len won)
  from coin len' total sla each show ?thesis by blast
qed

lemma projects_of_example_data:
  "load_data False [] example_env = Inr (synthetic_sales example_env, synthetic_projects example_env)
   \<and> map is_won (take 3 (rows (synthetic_sales example_env))) = [True, True, False]
   \<and> map (\<lambda>p. p ''Date Closed'') (rows (synthetic_projects example_env))
       = [NaT, Timestamp (timedelta_days 99)]
   \<and> map (\<lambda>p. p ''Kickoff Date'') (rows (synthetic_projects example_env))
       = [NaT, Timestamp (timedelta_days 102)]
   \<and> map (\<lambda>p. p ''Actual Completion'') (rows (synthetic_projects example_env))
       = [NaT, Timestamp (timedelta_days 137)]
   \<and> sla_breaches (synthetic_projects example_env) = Inr (Count 1)
   \<and> ops_total (synthetic_projects example_env) = 2"
proof -
  note t = projects_of_returned_data [OF load_data_example]
  have won: "map is_won (take 3 (rows (synthetic_sales example_env))) = [True, True, False]"
    by (simp add: rows_synthetic_sales upt_20 is_won_def lead_row_def choice_def)
       (simp add: example_env_def)
  have cells: "map (\<lambda>p. p ''Date Closed'') (rows (synthetic_projects example_env))
       = [NaT, Timestamp (timedelta_days 99)]"
    "map (\<lambda>p. p ''Kickoff Date'') (rows (synthetic_projects example_env))
       = [NaT, Timestamp (timedelta_days 102)]"
    "map (\<lambda>p. p ''Actual Completion'') (rows (synthetic_projects example_env))
       = [NaT, Timestamp (timedelta_days 137)]"
    by (simp_all add: rows_projects_example project_row_cells closed_example shift_def)
       (simp_all add: timedelta_days_def randint_def example_env_def)
  have late: "filter is_late (rows (synthetic_projects example_env))
              = [project_row example_env (Suc 0) (lead_row example_env (Suc 0))]"
    by (simp add: rows_projects_example is_late_def later_def project_row_cells closed_example
        shift_def)
       (simp add: timedelta_days_def randint_def example_env_def)
  from t have "sla_breaches (synthetic_projects example_env)
      = Inr (Count (length (filter is_late (rows (synthetic_projects example_env)))))"
    by blast
  then have sla: "sla_breaches (synthetic_projects example_env) = Inr (Count 1)"
    by (simp add: late)
  from t have "ops_total (synthetic_projects example_env)
      = length (rows (synthetic_projects example_env))"
    by blast
  then have total: "ops_total (synthetic_projects example_env) = 2"
    by (simp add: rows_projects_example)
  from load_data_example won cells sla total show ?thesis by simp
qed

lemma all_none_one_won: "all_none one_won_env"
  by (simp add: all_none_def one_won_env_def upt_20)

lemma won_leads_one_won: "won_leads one_won_env = [lead_row one_won_env 0]"
  by (simp add: won_leads_def synthetic_sales_eq is_won_def lead_row_def one_won_env_def choice_def
      upt_20)

text \<open>
  Claim C10 at the draws of \<open>one_won_env\<close>: the first lead is won and, like every
  other lead, has no close date. The claim says that the project derived from it has
  missing dates, is no SLA breach and is counted as active; the code derives no project:
  the column of close dates holds \<^verbatim>\<open>None\<close>, line 55 adds a \<^verbatim>\<open>timedelta\<close> to it and
  \<open>load_data\<close> raises \<^verbatim>\<open>TypeError\<close>. Where at least one lead has a close date the claim
  holds (\<open>projects_of_returned_data\<close>).
\<close>

theorem load_data_raises_for_won_lead_without_close_date:
  "is_won (rows (synthetic_sales one_won_env) ! 0)
   \<and> (rows (synthetic_sales one_won_env) ! 0) ''Date Closed'' = PyNone
   \<and> load_data False [] one_won_env = Inl TypeError"
proof -
  have "rows (synthetic_sales one_won_env) ! 0 = lead_row one_won_env 0"
    by (simp add: rows_synthetic_sales upt_20)
  moreover have "is_won (lead_row one_won_env 0)"
    by (simp add: is_won_def lead_row_def one_won_env_def choice_def)
  moreover have "lead_row one_won_env 0 ''Date Closed'' = PyNone"
    by (simp add: lead_row_def closed_cell_def all_none_one_won)
  moreover have "load_data False [] one_won_env = Inl TypeError"
    by (simp add: load_data_synthetic all_none_one_won won_leads_one_won)
  ultimately show ?thesis by simp
qed

end
